theory Spec2Isabelle
  imports Complex_Main "HOL-Library.Log_Nat"
begin

section \<open>Python strings\<close>

text \<open>
  A Python \<open>str\<close> is modelled as a \<open>string\<close>, each \<open>char\<close> standing for one code point
  below 256 (Latin-1). On that range the regular expression class \<open>\d\<close> matches exactly
  the ten ASCII digits, and \<open>str.strip()\<close> removes the white space listed in
  \<open>py_isspace\<close>.
\<close>

definition is_digit :: "char \<Rightarrow> bool" where
  "is_digit c = (c \<in> set ''0123456789'')"

text \<open>\<open>int(c)\<close> for a one-character string holding an ASCII digit.\<close>

definition int_of_digit :: "char \<Rightarrow> int" where
  "int_of_digit c = int (of_char c) - 48"

text \<open>\<open>re.sub(r'\D', '', s)\<close>: every character that is not a digit is removed.\<close>

definition re_sub_nao_digitos :: "string \<Rightarrow> string" where
  "re_sub_nao_digitos s = filter is_digit s"

definition py_isspace :: "char \<Rightarrow> bool" where
  "py_isspace c = ((of_char c :: nat) \<in> {9, 10, 11, 12, 13, 28, 29, 30, 31, 32, 133, 160})"

definition py_strip :: "string \<Rightarrow> string" where
  "py_strip s = rev (dropWhile py_isspace (rev (dropWhile py_isspace s)))"

section \<open>Identifier validators (src/utils/validators.py)\<close>

definition validar_cpf :: "string \<Rightarrow> bool" where
  "validar_cpf cpf =
     (let cpf_limpo = re_sub_nao_digitos cpf in
      if length cpf_limpo \<noteq> 11 then False
      else if cpf_limpo = replicate 11 (cpf_limpo ! 0) then False
      else
        let soma = (\<Sum>i\<leftarrow>[0..<9]. int_of_digit (cpf_limpo ! i) * (10 - int i));
            resto = soma mod 11;
            digito1 = (if resto < 2 then 0 else 11 - resto)
        in if int_of_digit (cpf_limpo ! 9) \<noteq> digito1 then False
           else
             let soma = (\<Sum>i\<leftarrow>[0..<10]. int_of_digit (cpf_limpo ! i) * (11 - int i));
                 resto = soma mod 11;
                 digito2 = (if resto < 2 then 0 else 11 - resto)
             in int_of_digit (cpf_limpo ! 10) = digito2)"

subsection \<open>The validator as the specification words it\<close>

text \<open>
  The check digit of a digit sequence under a weight vector: the weighted sum modulo 11,
  a remainder below 2 giving 0 and any other remainder \<open>r\<close> giving \<open>11 - r\<close>.
\<close>

definition digito_verificador :: "int list \<Rightarrow> int list \<Rightarrow> int" where
  "digito_verificador pesos ds =
     (let r = (\<Sum>(p, d)\<leftarrow>zip pesos ds. d * p) mod 11 in if r < 2 then 0 else 11 - r)"

definition todos_iguais :: "'a list \<Rightarrow> bool" where
  "todos_iguais xs = (case xs of [] \<Rightarrow> True | x # ys \<Rightarrow> list_all (\<lambda>y. y = x) ys)"

definition validate_person_id :: "string \<Rightarrow> bool" where
  "validate_person_id s =
     (let ds = filter is_digit s; ns = map int_of_digit ds in
      length ds = 11 \<and> \<not> todos_iguais ds \<and>
      digito_verificador [10, 9, 8, 7, 6, 5, 4, 3, 2] (take 9 ns) = ns ! 9 \<and>
      digito_verificador [11, 10, 9, 8, 7, 6, 5, 4, 3, 2] (take 10 ns) = ns ! 10)"


section \<open>Python floats\<close>

text \<open>
  A Python \<open>float\<close> is an IEEE 754 binary64 number: a finite value, one of the two
  infinities, or NaN. A finite one is modelled by its value, a rational number. Zero has
  one representation: the modelled code adds, subtracts, multiplies, divides by 100 and
  compares, and none of these tells \<open>-0.0\<close> from \<open>0.0\<close>.
\<close>

datatype double = Fin rat | PInf | NInf | NaN

text \<open>The binary exponent of a positive rational \<open>a\<close>: the \<open>e\<close> with \<open>2^e \<le> a < 2^(e+1)\<close>.\<close>

definition expoente :: "rat \<Rightarrow> int" where
  "expoente a = (if 1 \<le> a then bitlen \<lfloor>a\<rfloor> - 1 else - bitlen (\<lceil>1 / a\<rceil> - 1))"

text \<open>Rounding to the nearest integer, a tie going to the even one.\<close>

definition arredondar_par :: "rat \<Rightarrow> int" where
  "arredondar_par x =
     (let f = \<lfloor>x\<rfloor>; d = x - of_int f in
      if d < 1 / 2 then f else if 1 / 2 < d then f + 1 else if even f then f else f + 1)"

text \<open>
  Rounding a rational to the nearest double, ties to even: 53 significant bits, the
  exponent not below -1022 (below that the values are subnormal, spaced \<open>2^-1074\<close>
  apart), and overflow to infinity when the rounded value reaches \<open>2^1024\<close>. Every
  arithmetic operation returns the exact result rounded this way, and a float literal is
  its decimal value rounded this way.
\<close>

definition fl :: "rat \<Rightarrow> double" where
  "fl r =
     (if r = 0 then Fin 0
      else
        let a = \<bar>r\<bar>;
            ulp = 2 powi (max (expoente a) (- 1022) - 52);
            v = of_int (arredondar_par (a / ulp)) * ulp
        in if 2 ^ 1024 \<le> v then (if 0 < r then PInf else NInf)
           else Fin (if 0 < r then v else - v))"

text \<open>\<open>x + y\<close>, \<open>x - y\<close> and \<open>x * y\<close> on floats.\<close>

fun dadd :: "double \<Rightarrow> double \<Rightarrow> double" where
  "dadd (Fin a) (Fin b) = fl (a + b)"
| "dadd NaN y = NaN"
| "dadd x NaN = NaN"
| "dadd PInf NInf = NaN"
| "dadd NInf PInf = NaN"
| "dadd PInf y = PInf"
| "dadd NInf y = NInf"
| "dadd x PInf = PInf"
| "dadd x NInf = NInf"

fun dsub :: "double \<Rightarrow> double \<Rightarrow> double" where
  "dsub (Fin a) (Fin b) = fl (a - b)"
| "dsub NaN y = NaN"
| "dsub x NaN = NaN"
| "dsub PInf PInf = NaN"
| "dsub NInf NInf = NaN"
| "dsub PInf y = PInf"
| "dsub NInf y = NInf"
| "dsub x PInf = NInf"
| "dsub x NInf = PInf"

fun dmul :: "double \<Rightarrow> double \<Rightarrow> double" where
  "dmul (Fin a) (Fin b) = fl (a * b)"
| "dmul NaN y = NaN"
| "dmul x NaN = NaN"
| "dmul PInf (Fin b) = (if b = 0 then NaN else if 0 < b then PInf else NInf)"
| "dmul NInf (Fin b) = (if b = 0 then NaN else if 0 < b then NInf else PInf)"
| "dmul (Fin a) PInf = (if a = 0 then NaN else if 0 < a then PInf else NInf)"
| "dmul (Fin a) NInf = (if a = 0 then NaN else if 0 < a then NInf else PInf)"
| "dmul PInf PInf = PInf"
| "dmul PInf NInf = NInf"
| "dmul NInf PInf = NInf"
| "dmul NInf NInf = PInf"

text \<open>\<open>x / 100\<close>, the one division of the modelled code.\<close>

fun ddiv_100 :: "double \<Rightarrow> double" where
  "ddiv_100 (Fin a) = fl (a / 100)"
| "ddiv_100 PInf = PInf"
| "ddiv_100 NInf = NInf"
| "ddiv_100 NaN = NaN"

text \<open>\<open>x <= y\<close> and \<open>x < y\<close> on floats; every comparison with NaN is false.\<close>

fun dle :: "double \<Rightarrow> double \<Rightarrow> bool" where
  "dle NaN y = False"
| "dle x NaN = False"
| "dle (Fin a) (Fin b) = (a \<le> b)"
| "dle NInf y = True"
| "dle x PInf = True"
| "dle x y = False"

fun dlt :: "double \<Rightarrow> double \<Rightarrow> bool" where
  "dlt NaN y = False"
| "dlt x NaN = False"
| "dlt (Fin a) (Fin b) = (a < b)"
| "dlt PInf y = False"
| "dlt x NInf = False"
| "dlt x y = True"

section \<open>Errors (src/exceptions/banco_exceptions.py)\<close>

text \<open>
  Every exception class the modelled code raises is a constructor, carrying the
  arguments its \<open>__init__\<close> is given. \<open>ValidationError\<close> is the error of the
  validation library, carrying the names of the fields whose validator raised
  \<open>ValueError\<close>; \<open>AttributeError\<close> is a call of a method the object does not have.
\<close>

datatype erro =
    SaldoInsuficienteError double double
  | ValorInvalidoError double
  | LimiteExcedidoError double double
  | CPFInvalidoError string
  | IdadeInvalidaError int
  | ValidationError "string list"
  | AttributeError string

section \<open>Accounts and transactions (src/models)\<close>

text \<open>
  Objects are mutated in place and referred to from several places, so accounts live in
  a store and are named by their address. Monetary amounts are floats. A comparison of a
  float with the integer 0 compares with the float zero.
\<close>

type_synonym ref = nat

text \<open>
  \<open>Transacao\<close> (src/models/transacao.py). The \<open>data\<close> field has a default computed once,
  when the class is defined, and takes no part in any operation; it is left out.
\<close>

record transacao =
  tipo :: string
  valor :: double
  conta :: ref

definition Transacao :: "string \<Rightarrow> double \<Rightarrow> ref \<Rightarrow> erro + transacao" where
  "Transacao t v c =
     (let erros = (if py_strip t = [] then [''tipo''] else []) @
                  (if dle v (Fin 0) then [''valor''] else [])
      in if erros = [] then Inr \<lparr>tipo = py_strip t, valor = v, conta = c\<rparr>
         else Inl (ValidationError erros))"

text \<open>
  The two account classes extend \<open>Conta\<close>; the fields each one adds are the arguments
  of its variant.
\<close>

datatype variante =
    Corrente double double  \<comment> \<open>\<open>limite\<close>, \<open>taxa_manutencao\<close>\<close>
  | Poupanca double int     \<comment> \<open>\<open>taxa_rendimento\<close>, \<open>data_aniversario\<close>\<close>

record conta_obj =
  numero :: string
  cliente :: ref
  saldo :: double
  senha_hash :: string
  transacoes :: "transacao list"
  variante :: variante

type_synonym heap = "ref \<Rightarrow> conta_obj"

subsection \<open>Construction\<close>

text \<open>
  The field validators run in the order the fields are declared (those of \<open>Conta\<close>
  first); each one that raises \<open>ValueError\<close> adds its field to the \<open>ValidationError\<close>.
  \<open>numero\<close> is stored stripped; \<open>transacoes\<close> starts empty.
\<close>

definition ContaCorrente :: "string \<Rightarrow> ref \<Rightarrow> double \<Rightarrow> string \<Rightarrow> double \<Rightarrow> double \<Rightarrow> erro + conta_obj" where
  "ContaCorrente n cl s sh limite tx =
     (let erros = (if py_strip n = [] then [''numero''] else []) @
                  (if dlt s (Fin 0) then [''saldo''] else []) @
                  (if dlt limite (Fin 0) then [''limite''] else [])
      in if erros = [] then
           Inr \<lparr>numero = py_strip n, cliente = cl, saldo = s, senha_hash = sh,
                transacoes = [], variante = Corrente limite tx\<rparr>
         else Inl (ValidationError erros))"

definition taxa_manutencao_padrao :: double where
  "taxa_manutencao_padrao = fl 10.0"

definition ContaPoupanca :: "string \<Rightarrow> ref \<Rightarrow> double \<Rightarrow> string \<Rightarrow> double \<Rightarrow> int \<Rightarrow> erro + conta_obj" where
  "ContaPoupanca n cl s sh tr dia =
     (let erros = (if py_strip n = [] then [''numero''] else []) @
                  (if dlt s (Fin 0) then [''saldo''] else []) @
                  (if dle tr (Fin 0) then [''taxa_rendimento''] else []) @
                  (if \<not> (1 \<le> dia \<and> dia \<le> 31) then [''data_aniversario''] else [])
      in if erros = [] then
           Inr \<lparr>numero = py_strip n, cliente = cl, saldo = s, senha_hash = sh,
                transacoes = [], variante = Poupanca tr dia\<rparr>
         else Inl (ValidationError erros))"

subsection \<open>Methods\<close>

text \<open>
  A method takes the object and returns it updated, or the exception it raises; every
  \<open>raise\<close> of these methods comes before their first assignment, so a raised error
  leaves the object as it was.
\<close>

definition ContaCorrente_sacar :: "conta_obj \<Rightarrow> double \<Rightarrow> double \<Rightarrow> erro + conta_obj" where
  "ContaCorrente_sacar c limite v =
     (if dle v (Fin 0) then Inl (ValorInvalidoError v)
      else
        let limite_total = dadd (saldo c) limite in
        if dlt limite_total v then Inl (LimiteExcedidoError limite_total v)
        else Inr (c\<lparr>saldo := dsub (saldo c) v\<rparr>))"

definition ContaPoupanca_sacar :: "conta_obj \<Rightarrow> double \<Rightarrow> erro + conta_obj" where
  "ContaPoupanca_sacar c v =
     (if dle v (Fin 0) then Inl (ValorInvalidoError v)
      else if dlt (saldo c) v then Inl (SaldoInsuficienteError (saldo c) v)
      else Inr (c\<lparr>saldo := dsub (saldo c) v\<rparr>))"

text \<open>\<open>conta.sacar(valor)\<close>: the method of the object's class.\<close>

definition sacar :: "conta_obj \<Rightarrow> double \<Rightarrow> erro + conta_obj" where
  "sacar c v =
     (case variante c of
        Corrente limite tx \<Rightarrow> ContaCorrente_sacar c limite v
      | Poupanca tr dia \<Rightarrow> ContaPoupanca_sacar c v)"




text \<open>
  \<open>get_valor_imposto\<close> exists on \<open>ContaCorrente\<close> only and \<open>get_rendimento\<close> on
  \<open>ContaPoupanca\<close> only; calling one on the other class is an \<open>AttributeError\<close>, and
  \<open>hasattr\<close> tells which is there.
\<close>

definition get_valor_imposto :: "conta_obj \<Rightarrow> erro + double" where
  "get_valor_imposto c =
     (case variante c of
        Corrente limite tx \<Rightarrow> Inr (dmul (saldo c) (fl 0.07))
      | Poupanca tr dia \<Rightarrow> Inl (AttributeError ''get_valor_imposto''))"

definition get_rendimento :: "conta_obj \<Rightarrow> erro + double" where
  "get_rendimento c =
     (case variante c of
        Corrente limite tx \<Rightarrow> Inl (AttributeError ''get_rendimento'')
      | Poupanca tr dia \<Rightarrow> Inr (dmul (saldo c) (ddiv_100 tr)))"

definition hasattr_get_valor_imposto :: "conta_obj \<Rightarrow> bool" where
  "hasattr_get_valor_imposto c = (case variante c of Corrente limite tx \<Rightarrow> True | Poupanca tr dia \<Rightarrow> False)"

definition hasattr_get_rendimento :: "conta_obj \<Rightarrow> bool" where
  "hasattr_get_rendimento c = (case variante c of Corrente limite tx \<Rightarrow> False | Poupanca tr dia \<Rightarrow> True)"

section \<open>Account services (src/services/conta_service.py)\<close>

text \<open>
  A service takes the store and the addresses of the accounts it is given, and returns
  the exception that left it (\<open>None\<close> when it returns normally) with the store as it is
  at that moment. Logging and the console view write messages only and are left out.
\<close>

abbreviation str_Deposito :: string where
  "str_Deposito \<equiv> ''Dep'' @ [CHR 0xF3] @ ''sito''"


definition append_transacao :: "heap \<Rightarrow> ref \<Rightarrow> transacao \<Rightarrow> heap" where
  "append_transacao h a t = h(a := (h a)\<lparr>transacoes := transacoes (h a) @ [t]\<rparr>)"

definition realizar_deposito :: "heap \<Rightarrow> ref \<Rightarrow> double \<Rightarrow> erro option \<times> heap" where
  "realizar_deposito h a v =
     (if dle v (Fin 0) then (Some (ValorInvalidoError v), h)
      else
        let h1 = h(a := (h a)\<lparr>saldo := dadd (saldo (h a)) v\<rparr>) in
        case Transacao str_Deposito v a of
          Inl e \<Rightarrow> (Some e, h1)
        | Inr t \<Rightarrow> (None, append_transacao h1 a t))"

definition realizar_saque :: "heap \<Rightarrow> ref \<Rightarrow> double \<Rightarrow> erro option \<times> heap" where
  "realizar_saque h a v =
     (case sacar (h a) v of
        Inl e \<Rightarrow> (Some e, h)
      | Inr c \<Rightarrow>
          let h1 = h(a := c) in
          case Transacao ''Saque'' v a of
            Inl e \<Rightarrow> (Some e, h1)
          | Inr t \<Rightarrow> (None, append_transacao h1 a t))"

definition transferir :: "heap \<Rightarrow> ref \<Rightarrow> ref \<Rightarrow> double \<Rightarrow> erro option \<times> heap" where
  "transferir h origem destino v =
     (case sacar (h origem) v of
        Inl e \<Rightarrow> (Some e, h)
      | Inr c \<Rightarrow>
          let h1 = h(origem := c) in
          case Transacao (''Transf. para '' @ numero (h1 destino)) v origem of
            Inl e \<Rightarrow> (Some e, h1)
          | Inr transacao_saida \<Rightarrow>
              let h2 = append_transacao h1 origem transacao_saida;
                  h3 = h2(destino := (h2 destino)\<lparr>saldo := dadd (saldo (h2 destino)) v\<rparr>)
              in case Transacao (''Transf. de '' @ numero (h3 origem)) v destino of
                   Inl e \<Rightarrow> (Some e, h3)
                 | Inr transacao_entrada \<Rightarrow>
                     (None, append_transacao h3 destino transacao_entrada))"


definition calcular_imposto :: "heap \<Rightarrow> ref \<Rightarrow> (erro + double) \<times> heap" where
  "calcular_imposto h a =
     (if hasattr_get_valor_imposto (h a) then (get_valor_imposto (h a), h)
      else (Inr (fl 0.0), h))"

definition calcular_rendimento :: "heap \<Rightarrow> ref \<Rightarrow> (erro + double) \<times> heap" where
  "calcular_rendimento h a =
     (if hasattr_get_rendimento (h a) then (get_rendimento (h a), h)
      else (Inr (fl 0.0), h))"

definition aplicar_rendimento :: "heap \<Rightarrow> ref \<Rightarrow> erro option \<times> heap" where
  "aplicar_rendimento h a =
     (if hasattr_get_rendimento (h a) then
        case get_rendimento (h a) of
          Inl e \<Rightarrow> (Some e, h)
        | Inr rendimento \<Rightarrow>
            let h1 = h(a := (h a)\<lparr>saldo := dadd (saldo (h a)) rendimento\<rparr>) in
            case Transacao ''Rendimento'' rendimento a of
              Inl e \<Rightarrow> (Some e, h1)
            | Inr t \<Rightarrow> (None, append_transacao h1 a t)
      else (None, h))"

subsection \<open>Sequences of calls\<close>

text \<open>
  A caller that makes one deposit after another: an exception leaves the sequence at the
  call that raised it.
\<close>

fun realizar_depositos :: "heap \<Rightarrow> ref \<Rightarrow> double list \<Rightarrow> erro option \<times> heap" where
  "realizar_depositos h a [] = (None, h)"
| "realizar_depositos h a (v # vs) =
     (case realizar_deposito h a v of
        (Some e, h1) \<Rightarrow> (Some e, h1)
      | (None, h1) \<Rightarrow> realizar_depositos h1 a vs)"





text \<open>What the \<open>numero\<close> validator of \<open>Conta\<close> lets through: a stripped, non-empty string.\<close>

definition numero_valido :: "string \<Rightarrow> bool" where
  "numero_valido n = (n \<noteq> [] \<and> py_strip n = n)"

subsection \<open>Runs without rounding\<close>





section \<open>Customers (src/models/pessoa.py, src/models/cliente.py)\<close>

record data =
  year :: int
  month :: int
  day :: int

record cliente_obj =
  nome :: string
  cpf :: string
  data_nascimento :: data
  cnh :: string
  contas :: "ref list"

text \<open>
  The age computed by \<open>validar_idade_minima\<close>; \<open>hoje\<close> is the date the clock gives.
  Python compares the pairs \<open>(month, day)\<close> lexicographically.
\<close>

definition idade :: "data \<Rightarrow> data \<Rightarrow> int" where
  "idade hoje v =
     year hoje - year v -
     (if month hoje < month v \<or> (month hoje = month v \<and> day hoje < day v) then 1 else 0)"

text \<open>\<open>str.isdigit()\<close> on code points below 256: the ASCII digits and the superscripts 1, 2, 3.\<close>

definition py_isdigit :: "string \<Rightarrow> bool" where
  "py_isdigit s =
     (s \<noteq> [] \<and> list_all (\<lambda>c. is_digit c \<or> (of_char c :: nat) \<in> {178, 179, 185}) s)"

text \<open>
  Constructing a \<open>Cliente\<close>. The validators run field by field in declaration order:
  \<open>nome\<close>, \<open>cpf\<close>, \<open>data_nascimento\<close> (from \<open>Pessoa\<close>), then \<open>cnh\<close>. A validator that
  raises \<open>ValueError\<close> has its field recorded and the next field is validated, the
  \<open>ValidationError\<close> being raised at the end; \<open>CPFInvalidoError\<close> and \<open>IdadeInvalidaError\<close>
  are not \<open>ValueError\<close>s and leave the constructor at once.
\<close>

definition Cliente :: "data \<Rightarrow> string \<Rightarrow> string \<Rightarrow> data \<Rightarrow> string \<Rightarrow> erro + cliente_obj" where
  "Cliente hoje n c dn h =
     (let erros_nome = (if py_strip n = [] then [''nome''] else []) in
      if \<not> validar_cpf c then Inl (CPFInvalidoError c)
      else
        let i = idade hoje dn in
        if i < 18 then Inl (IdadeInvalidaError i)
        else
          let cnh_limpo = filter (\<lambda>x. x \<noteq> CHR ''-'') (filter (\<lambda>x. x \<noteq> CHR '' '') h);
              erros = erros_nome @
                      (if \<not> py_isdigit cnh_limpo \<or> length cnh_limpo < 9 then [''cnh''] else [])
          in if erros = [] then
               Inr \<lparr>nome = py_strip n, cpf = c, data_nascimento = dn, cnh = h, contas = []\<rparr>
             else Inl (ValidationError erros))"

section \<open>The monolith (src/banco2.py)\<close>

text \<open>
  The first version of the program keeps every class in one file. Its account methods
  print through \<open>Notificacao\<close>; what they print is returned as the list of notifications,
  in order. Its \<open>Transacao\<close> has the same three fields and no validation.
\<close>

datatype notificacao =
    Notificacao_deposito double
  | Notificacao_saque double
  | Notificacao_erro_valor_invalido
  | Notificacao_erro_saldo_insuficiente
  | Notificacao_erro_limite_excedido
  | Notificacao_taxa_manutencao double
  | Notificacao_sem_taxa_poupanca

datatype b2_erro =
    b2_ValorInvalidoError
  | b2_SaldoInsuficienteError
  | b2_LimiteExcedidoError

record b2_conta =
  b2_numero :: string
  b2_cliente :: ref
  b2_saldo :: double
  b2_senha :: string
  b2_transacoes :: "transacao list"
  b2_variante :: variante

text \<open>
  The validation helpers of the class \<open>Exceptions\<close>: \<open>None\<close> is a normal return.
  No method of the accounts calls them.
\<close>

definition b2_validar_valor_positivo :: "double \<Rightarrow> b2_erro option" where
  "b2_validar_valor_positivo v = (if dle v (Fin 0) then Some b2_ValorInvalidoError else None)"

definition b2_validar_saque_poupanca :: "double \<Rightarrow> double \<Rightarrow> b2_erro option" where
  "b2_validar_saque_poupanca s v =
     (case b2_validar_valor_positivo v of
        Some e \<Rightarrow> Some e
      | None \<Rightarrow> if dlt s v then Some b2_SaldoInsuficienteError else None)"

definition b2_validar_saque_corrente :: "double \<Rightarrow> double \<Rightarrow> double \<Rightarrow> b2_erro option" where
  "b2_validar_saque_corrente s limite v =
     (case b2_validar_valor_positivo v of
        Some e \<Rightarrow> Some e
      | None \<Rightarrow> if dlt (dadd s limite) v then Some b2_LimiteExcedidoError else None)"

text \<open>
  The methods take the address of \<open>self\<close> (for the back reference of the transaction)
  and the object, and return the exception raised (none of them raises), the
  notifications printed and the object as it is afterwards.
\<close>

definition b2_depositar :: "ref \<Rightarrow> b2_conta \<Rightarrow> double \<Rightarrow> b2_erro option \<times> notificacao list \<times> b2_conta" where
  "b2_depositar self c v =
     (if dle v (Fin 0) then (None, [Notificacao_erro_valor_invalido], c)
      else
        (None, [Notificacao_deposito v],
         c\<lparr>b2_saldo := dadd (b2_saldo c) v,
           b2_transacoes := b2_transacoes c @ [\<lparr>tipo = str_Deposito, valor = v, conta = self\<rparr>]\<rparr>))"

definition b2_Conta_Corrente_sacar :: "ref \<Rightarrow> b2_conta \<Rightarrow> double \<Rightarrow> double \<Rightarrow> b2_erro option \<times> notificacao list \<times> b2_conta" where
  "b2_Conta_Corrente_sacar self c limite v =
     (if dle v (Fin 0) then (None, [Notificacao_erro_valor_invalido], c)
      else if dlt (dadd (b2_saldo c) limite) v then (None, [Notificacao_erro_limite_excedido], c)
      else
        (None, [Notificacao_saque v],
         c\<lparr>b2_saldo := dsub (b2_saldo c) v,
           b2_transacoes := b2_transacoes c @ [\<lparr>tipo = ''Saque'', valor = v, conta = self\<rparr>]\<rparr>))"

definition b2_Conta_Poupanca_sacar :: "ref \<Rightarrow> b2_conta \<Rightarrow> double \<Rightarrow> b2_erro option \<times> notificacao list \<times> b2_conta" where
  "b2_Conta_Poupanca_sacar self c v =
     (if dle v (Fin 0) then (None, [Notificacao_erro_valor_invalido], c)
      else if dlt (b2_saldo c) v then (None, [Notificacao_erro_saldo_insuficiente], c)
      else
        (None, [Notificacao_saque v],
         c\<lparr>b2_saldo := dsub (b2_saldo c) v,
           b2_transacoes := b2_transacoes c @ [\<lparr>tipo = ''Saque'', valor = v, conta = self\<rparr>]\<rparr>))"

definition b2_sacar :: "ref \<Rightarrow> b2_conta \<Rightarrow> double \<Rightarrow> b2_erro option \<times> notificacao list \<times> b2_conta" where
  "b2_sacar self c v =
     (case b2_variante c of
        Corrente limite tx \<Rightarrow> b2_Conta_Corrente_sacar self c limite v
      | Poupanca tr dia \<Rightarrow> b2_Conta_Poupanca_sacar self c v)"

section \<open>The objects of the test suite (src/tests/conftest.py)\<close>

definition conta_corrente_padrao :: conta_obj where
  "conta_corrente_padrao =
     \<lparr>numero = ''12345-6'', cliente = 0, saldo = fl 1000.0, senha_hash = ''senha123'',
      transacoes = [], variante = Corrente (fl 500.0) (fl 10.0)\<rparr>"

definition conta_poupanca_padrao :: conta_obj where
  "conta_poupanca_padrao =
     \<lparr>numero = ''98765-4'', cliente = 0, saldo = fl 5000.0, senha_hash = ''senha456'',
      transacoes = [], variante = Poupanca (fl 0.5) 15\<rparr>"

text \<open>The store of the tests: the checking account at address 0, the savings account elsewhere.\<close>

definition heap_padrao :: heap where
  "heap_padrao = (\<lambda>a. if a = 0 then conta_corrente_padrao else conta_poupanca_padrao)"

text \<open>The two accounts that \<open>main\<close> of the monolith opens.\<close>

definition b2_conta_corrente :: b2_conta where
  "b2_conta_corrente =
     \<lparr>b2_numero = ''001'', b2_cliente = 0, b2_saldo = fl 1000.0, b2_senha = ''1234'',
      b2_transacoes = [], b2_variante = Corrente (fl 1000) (fl 10.0)\<rparr>"

definition b2_conta_poupanca :: b2_conta where
  "b2_conta_poupanca =
     \<lparr>b2_numero = ''001'', b2_cliente = 0, b2_saldo = fl 15000, b2_senha = ''2508'',
      b2_transacoes = [], b2_variante = Poupanca (fl 0.5) 3\<rparr>"

text \<open>
  Three more stores, for amounts that double arithmetic rounds: a checking account with
  balance \<open>0.1\<close> and limit \<open>0.2\<close>; the accounts of the tests with a balance of
  \<open>1e16\<close>, where the doubles are 2 apart; and the same accounts with a balance of
  \<open>5e-324\<close>, the smallest positive double.
\<close>

definition heap_decimos :: heap where
  "heap_decimos =
     (\<lambda>a. conta_corrente_padrao\<lparr>saldo := fl 0.1, variante := Corrente (fl 0.2) (fl 10.0)\<rparr>)"

definition heap_grande :: heap where
  "heap_grande = (\<lambda>a. (heap_padrao a)\<lparr>saldo := fl (10 ^ 16)\<rparr>)"

definition heap_minimo :: heap where
  "heap_minimo = (\<lambda>a. (heap_padrao a)\<lparr>saldo := fl (5 / 10 ^ 324)\<rparr>)"

section \<open>Properties of the validators\<close>

lemma len11: "length xs = 11 \<Longrightarrow> \<exists>a b c d e f g h i j k. xs = [a,b,c,d,e,f,g,h,i,j,k]"
  by (simp add: eval_nat_numeral length_Suc_conv) blast

lemma upt9: "[0..<9] = [0,1,2,3,4,5,6,7,8]" by (simp add: upt_rec)
lemma upt10: "[0..<10] = [0,1,2,3,4,5,6,7,8,9]" by (simp add: upt_rec)

lemma rep11: "replicate 11 x = [x,x,x,x,x,x,x,x,x,x,x]"
  by (simp add: eval_nat_numeral)

lemma iguais11: "([a,b,c,d,e,f,g,h,i,j,k] = replicate 11 ([a,b,c,d,e,f,g,h,i,j,k] ! 0))
   = todos_iguais [a,b,c,d,e,f,g,h,i,j,k]"
  unfolding rep11 todos_iguais_def by auto

lemma soma1: "(\<Sum>n\<leftarrow>[0..<9]. int_of_digit ([a,b,c,d,e,f,g,h,i,j,k] ! n) * (10 - int n))
  = (\<Sum>(p, d)\<leftarrow>zip [10, 9, 8, 7, 6, 5, 4, 3, 2] (take 9 (map int_of_digit [a,b,c,d,e,f,g,h,i,j,k])). d * p)"
  unfolding upt9 by (simp add: eval_nat_numeral)

lemma soma2: "(\<Sum>n\<leftarrow>[0..<10]. int_of_digit ([a,b,c,d,e,f,g,h,i,j,k] ! n) * (11 - int n))
  = (\<Sum>(p, d)\<leftarrow>zip [11, 10, 9, 8, 7, 6, 5, 4, 3, 2] (take 10 (map int_of_digit [a,b,c,d,e,f,g,h,i,j,k])). d * p)"
  unfolding upt10 by (simp add: eval_nat_numeral)

lemma nth9: "map fn [a,b,c,d,e,f,g,h,i,j,k] ! 9 = fn ([a,b,c,d,e,f,g,h,i,j,k] ! 9)"
  "map fn [a,b,c,d,e,f,g,h,i,j,k] ! 10 = fn ([a,b,c,d,e,f,g,h,i,j,k] ! 10)"
  by (simp_all add: eval_nat_numeral)

lemma validar_cpf_validate_person_id: "validar_cpf s = validate_person_id s"
proof (cases "length (filter is_digit s) = 11")
  case False
  then show ?thesis
    by (simp add: validar_cpf_def validate_person_id_def re_sub_nao_digitos_def Let_def)
next
  case True
  define L where "L = filter is_digit s"
  have len: "length L = 11" using True by (simp add: L_def)
  from len11[OF len] obtain a b c d e f g h i j k where xs: "L = [a,b,c,d,e,f,g,h,i,j,k]"
    by (elim exE)
  have ig: "(L = replicate 11 (L ! 0)) = todos_iguais L"
    unfolding xs by (rule iguais11)
  have s1: "(\<Sum>n\<leftarrow>[0..<9]. int_of_digit (L ! n) * (10 - int n))
     = (\<Sum>(p, d)\<leftarrow>zip [10, 9, 8, 7, 6, 5, 4, 3, 2] (take 9 (map int_of_digit L)). d * p)"
    unfolding xs by (rule soma1)
  have s2: "(\<Sum>n\<leftarrow>[0..<10]. int_of_digit (L ! n) * (11 - int n))
     = (\<Sum>(p, d)\<leftarrow>zip [11, 10, 9, 8, 7, 6, 5, 4, 3, 2] (take 10 (map int_of_digit L)). d * p)"
    unfolding xs by (rule soma2)
  have n9: "map int_of_digit L ! 9 = int_of_digit (L ! 9)"
    and n10: "map int_of_digit L ! 10 = int_of_digit (L ! 10)"
    unfolding xs by (rule nth9)+
  show ?thesis
    unfolding validar_cpf_def validate_person_id_def re_sub_nao_digitos_def
      digito_verificador_def Let_def L_def[symmetric] ig s1 s2 n9 n10 len
    by (simp only: simp_thms if_False if_True split: if_splits) auto
qed

lemma validar_cpf_exemplos:
  "validar_cpf ''123.456.789-09''"
  "\<not> validar_cpf ''111.111.111-11''"
  "\<not> validar_cpf ''123.456.789-00''"
  by (simp_all add: validar_cpf_def re_sub_nao_digitos_def is_digit_def int_of_digit_def
        upt9 upt10 rep11 Let_def)

text \<open>
  C7. \<open>validar_cpf\<close> is a function of its argument alone. It agrees on every string with
  the validator worded by the specification: remove what is not a digit, require exactly
  eleven digits that are not all the same, and compare the two check digits (weights 10
  down to 2, then 11 down to 2, the sum modulo 11, a remainder below 2 giving 0 and any
  other \<open>r\<close> giving \<open>11 - r\<close>) with the last two digits. It accepts \<open>123.456.789-09\<close> and
  rejects \<open>111.111.111-11\<close> and \<open>123.456.789-00\<close>.
\<close>

theorem C7_validar_cpf:
  "validar_cpf s = validate_person_id s \<and>
   validar_cpf ''123.456.789-09'' = True \<and>
   validar_cpf ''111.111.111-11'' = False \<and>
   validar_cpf ''123.456.789-00'' = False"
  using validar_cpf_validate_person_id[of s] validar_cpf_exemplos by simp

section \<open>Properties of double arithmetic\<close>

text \<open>
  The exponent function finds the binade of its argument, rounding to even stays within
  one half of its argument, and from these: how \<open>fl\<close> is computed once the binade is
  known, that it commutes with negation, that it is finite below \<open>2^1023\<close>, and that it
  leaves every integer of magnitude at most \<open>2^53\<close> unchanged.
\<close>

lemma expoente_bounds:
  assumes "0 < a"
  shows "2 powi (expoente a) \<le> a" and "a < 2 powi (expoente a + 1)"
proof -
  have "2 powi (expoente a) \<le> a \<and> a < 2 powi (expoente a + 1)"
  proof (cases "1 \<le> a")
    case True
    define x where "x = \<lfloor>a\<rfloor>"
    have x: "0 < x" using True by (simp add: x_def)
    from bitlen_bounds[OF x] have b: "2 ^ nat (bitlen x - 1) \<le> x" "x < 2 ^ nat (bitlen x)"
      by simp_all
    have k: "1 \<le> bitlen x" using x by (auto simp: bitlen_alt_def)
    have e: "expoente a = bitlen x - 1" using True by (simp add: expoente_def x_def)
    have "(2::rat) ^ nat (bitlen x - 1) = of_int (2 ^ nat (bitlen x - 1))" by simp
    also have "\<dots> \<le> of_int x" using b(1) by (simp only: of_int_le_iff)
    also have "\<dots> \<le> a" by (simp add: x_def)
    finally have 1: "2 powi (expoente a) \<le> a"
      using k by (simp add: e power_int_def)
    have "a < of_int (x + 1)" unfolding x_def by simp linarith
    also have "\<dots> \<le> of_int (2 ^ nat (bitlen x))"
      using b(2) by (simp only: of_int_le_iff)
    also have "\<dots> = (2::rat) ^ nat (bitlen x)" by simp
    finally have 2: "a < 2 powi (expoente a + 1)"
      using k by (simp add: e power_int_def)
    from 1 2 show ?thesis ..
  next
    case False
    then have a1: "a < 1" by simp
    define x where "x = \<lceil>1 / a\<rceil> - 1"
    have "1 < 1 / a" using assms a1 by simp
    then have "1 < \<lceil>1 / a\<rceil>" by (simp add: less_ceiling_iff)
    then have x: "0 < x" by (simp add: x_def)
    from bitlen_bounds[OF x] have b: "2 ^ nat (bitlen x - 1) \<le> x" "x < 2 ^ nat (bitlen x)"
      by simp_all
    have k: "1 \<le> bitlen x" using x by (auto simp: bitlen_alt_def)
    have e: "expoente a = - bitlen x" using False by (simp add: expoente_def x_def)
    have "1 / a \<le> of_int (x + 1)" unfolding x_def by simp
    also have "\<dots> \<le> of_int (2 ^ nat (bitlen x))"
      using b(2) by (simp only: of_int_le_iff)
    also have "\<dots> = (2::rat) ^ nat (bitlen x)" by simp
    finally have "1 / a \<le> 2 ^ nat (bitlen x)" .
    then have "1 \<le> 2 ^ nat (bitlen x) * a"
      using assms by (simp add: pos_divide_le_eq)
    then have "1 / 2 ^ nat (bitlen x) \<le> a"
      by (simp add: pos_divide_le_eq mult.commute)
    then have 1: "2 powi (expoente a) \<le> a"
      using k by (simp add: e power_int_def field_simps)
    have "(2::rat) ^ nat (bitlen x - 1) = of_int (2 ^ nat (bitlen x - 1))" by simp
    also have "\<dots> \<le> of_int x" using b(1) by (simp only: of_int_le_iff)
    also have "\<dots> < 1 / a" by (simp add: x_def) (metis ceiling_correct diff_less_eq)
    finally have "(2::rat) ^ nat (bitlen x - 1) < 1 / a" .
    then have "2 ^ nat (bitlen x - 1) * a < 1"
      using assms by (simp add: pos_less_divide_eq)
    then have "a < 1 / 2 ^ nat (bitlen x - 1)"
      by (simp add: pos_less_divide_eq mult.commute)
    moreover have "2 powi (expoente a + 1) = 1 / (2::rat) ^ nat (bitlen x - 1)"
      using k by (auto simp: e power_int_def field_simps nat_diff_distrib) 
    ultimately have 2: "a < 2 powi (expoente a + 1)" by simp
    from 1 2 show ?thesis ..
  qed
  then show "2 powi (expoente a) \<le> a" and "a < 2 powi (expoente a + 1)" by simp_all
qed

lemma expoente_eqI:
  assumes "2 powi e \<le> a" and "a < 2 powi (e + 1)"
  shows "expoente a = e"
proof -
  have pos: "0 < a" using assms(1) by (rule less_le_trans[rotated]) simp
  note b = expoente_bounds[OF pos]
  have "\<not> expoente a < e"
  proof
    assume "expoente a < e"
    then have "expoente a + 1 \<le> e" by simp
    then have "(2::rat) powi (expoente a + 1) \<le> 2 powi e"
      by (intro power_int_increasing) simp_all
    with b(2) assms(1) show False by simp
  qed
  moreover have "\<not> e < expoente a"
  proof
    assume "e < expoente a"
    then have "e + 1 \<le> expoente a" by simp
    then have "(2::rat) powi (e + 1) \<le> 2 powi (expoente a)"
      by (intro power_int_increasing) simp_all
    with b(1) assms(2) show False by simp
  qed
  ultimately show ?thesis by simp
qed

lemma arredondar_par_bounds:
  "of_int (arredondar_par x) \<le> x + 1 / 2" "x - 1 / 2 \<le> of_int (arredondar_par x)"
proof -
  define f where "f = \<lfloor>x\<rfloor>"
  have f: "of_int f \<le> x" "x < of_int f + 1" unfolding f_def by linarith+
  have c: "arredondar_par x = f \<and> x - of_int f \<le> 1 / 2 \<or>
           arredondar_par x = f + 1 \<and> 1 / 2 \<le> x - of_int f"
    by (auto simp: arredondar_par_def Let_def f_def)
  show "of_int (arredondar_par x) \<le> x + 1 / 2"
    using f c by auto
  show "x - 1 / 2 \<le> of_int (arredondar_par x)"
    using f c by auto
qed

lemma arredondar_par_eqI:
  assumes "of_int n - 1 / 2 < x" and "x < of_int n + 1 / 2"
  shows "arredondar_par x = n"
proof -
  note b = arredondar_par_bounds[of x]
  have "of_int (arredondar_par x) < (of_int n :: rat) + 1" using b(1) assms(2) by linarith
  moreover have "(of_int n :: rat) - 1 < of_int (arredondar_par x)" using b(2) assms(1) by linarith
  ultimately have "arredondar_par x < n + 1" "n - 1 < arredondar_par x"
    by (simp_all flip: of_int_less_iff[where 'a=rat])
  then show ?thesis by simp
qed

lemma arredondar_par_of_int: "arredondar_par (of_int n) = n"
  by (rule arredondar_par_eqI) simp_all

lemma arredondar_par_empate:
  assumes "x = of_int n + 1 / 2"
  shows "arredondar_par x = (if even n then n else n + 1)"
proof -
  have "\<lfloor>x\<rfloor> = n" unfolding assms by (rule floor_unique) simp_all
  then show ?thesis by (simp add: arredondar_par_def Let_def assms)
qed

lemma fl_zero: "fl 0 = Fin 0"
  by (simp add: fl_def)

lemma fl_normal:
  assumes "2 powi e \<le> r" and "r < 2 powi (e + 1)" and "- 1022 \<le> e"
    and "arredondar_par (r / 2 powi (e - 52)) = n"
    and "of_int n * 2 powi (e - 52) < (2::rat) ^ 1024"
  shows "fl r = Fin (of_int n * 2 powi (e - 52))"
proof -
  have pos: "0 < r" using assms(1) by (rule less_le_trans[rotated]) simp
  have a: "\<bar>r\<bar> = r" using pos by simp
  have e: "expoente r = e" using assms(1,2) by (rule expoente_eqI)
  have m: "max e (- 1022) = e" using assms(3) by simp
  have v: "\<not> (2::rat) ^ 1024 \<le> of_int n * 2 powi (e - 52)" using assms(5) by simp
  show ?thesis
    unfolding fl_def Let_def a e m assms(4) using pos v by (simp only: if_False if_True) simp
qed

lemma fl_subnormal:
  assumes "0 < r" and "r < 2 powi (- 1022)"
    and "arredondar_par (r / 2 powi (- 1074)) = n"
  shows "fl r = Fin (of_int n * 2 powi (- 1074))"
proof -
  have "\<not> - 1022 \<le> expoente r"
  proof
    assume "- 1022 \<le> expoente r"
    then have "(2::rat) powi (- 1022) \<le> 2 powi (expoente r)"
      by (intro power_int_increasing) simp_all
    with expoente_bounds(1)[OF assms(1)] assms(2) show False by simp
  qed
  then have m: "max (expoente r) (- 1022) - 52 = - 1074" by simp
  have a: "\<bar>r\<bar> = r" using assms(1) by simp
  define u :: rat where "u = 2 powi (- 1074)"
  have u: "0 < u" "u \<le> 1" 
    unfolding u_def using power_int_increasing[of "- 1074" 0 "2::rat"] by simp_all
  have "of_int n \<le> r / u + 1 / 2"
    using arredondar_par_bounds(1)[of "r / u"] assms(3) by (simp add: u_def)
  then have "of_int n * u \<le> (r / u + 1 / 2) * u"
    using u(1) by (simp only: mult_le_cancel_right) simp
  also have "\<dots> = r + u / 2" using u(1) by (simp add: field_simps)
  also have "\<dots> < 2 ^ 1024"
  proof -
    have "r < 1" using assms(2) power_int_increasing[of "- 1022" 0 "2::rat"] by simp
    moreover have "(2::rat) \<le> 2 ^ 1024" by (rule self_le_power) simp_all
    ultimately show ?thesis using u by linarith
  qed
  finally have v: "\<not> 2 ^ 1024 \<le> of_int n * u" by simp
  show ?thesis
    unfolding fl_def Let_def a m assms(3) using assms(1) v[unfolded u_def]
    by (simp only: if_False if_True) simp
qed

lemma fl_uminus:
  assumes "fl r = Fin v"
  shows "fl (- r) = Fin (- v)"
proof (cases "r = 0")
  case True
  then show ?thesis using assms by (simp add: fl_zero)
next
  case False
  then show ?thesis
    using assms by (cases "0 < r") (auto simp: fl_def Let_def split: if_splits)
qed

lemma fl_finito:
  assumes "\<bar>r\<bar> < 2 ^ 1023"
  shows "\<exists>v. fl r = Fin v"
proof (cases "r = 0")
  case True
  then show ?thesis by (simp add: fl_zero)
next
  case False
  define a where "a = \<bar>r\<bar>"
  have a: "0 < a" "a < 2 ^ 1023" using False assms by (simp_all add: a_def)
  define E where "E = max (expoente a) (- 1022)"
  have "\<not> 1023 \<le> expoente a"
  proof
    assume "1023 \<le> expoente a"
    then have "(2::rat) powi 1023 \<le> 2 powi (expoente a)"
      by (intro power_int_increasing) simp_all
    with expoente_bounds(1)[OF a(1)] a(2) show False by simp
  qed
  then have E: "E - 52 \<le> 970" by (simp add: E_def)
  define u :: rat where "u = 2 powi (E - 52)"
  have u: "0 < u" "u \<le> 2 ^ 970"
    unfolding u_def using power_int_increasing[OF E, of "2::rat"] by simp_all
  define n where "n = arredondar_par (a / u)"
  have "of_int n \<le> a / u + 1 / 2"
    unfolding n_def by (rule arredondar_par_bounds)
  then have "of_int n * u \<le> (a / u + 1 / 2) * u"
    using u(1) by (simp only: mult_le_cancel_right) simp
  also have "\<dots> = a + u / 2" using u(1) by (simp add: field_simps)
  also have "\<dots> < 2 ^ 1023 + 2 ^ 970" using a(2) u by linarith
  also have "\<dots> \<le> (2::rat) ^ 1023 + 2 ^ 1023"
    by (simp only: add_le_cancel_left, rule power_increasing) simp_all
  also have "\<dots> = 2 ^ 1024" by simp
  finally have v: "\<not> 2 ^ 1024 \<le> of_int n * u" by simp
  show ?thesis
    unfolding fl_def Let_def using False v[unfolded n_def u_def E_def a_def]
    by (simp only: if_False if_True) simp
qed

lemma fl_of_int_pos:
  assumes "0 < m" and "m \<le> 2 ^ 53"
  shows "fl (of_int m) = Fin (of_int m)"
proof -
  define r :: rat where "r = of_int m"
  have r1: "1 \<le> r" using assms(1) by (simp add: r_def)
  have "(of_int m :: rat) \<le> of_int (2 ^ 53)" using assms(2) by (simp only: of_int_le_iff)
  then have r2: "r \<le> 2 ^ 53" by (simp add: r_def)
  note r = r1 r2
  have pos: "0 < r" using r(1) by simp
  define e where "e = expoente r"
  note b = expoente_bounds[OF pos, folded e_def]
  have e0: "0 \<le> e"
  proof (rule ccontr)
    assume "\<not> 0 \<le> e"
    then have "e + 1 \<le> 0" by simp
    then have "(2::rat) powi (e + 1) \<le> 2 powi 0" by (intro power_int_increasing) simp_all
    with b(2) r(1) show False by simp
  qed
  have e53: "e \<le> 53"
  proof (rule ccontr)
    assume "\<not> e \<le> 53"
    then have "54 \<le> e" by simp
    then have "(2::rat) powi 54 \<le> 2 powi e" by (intro power_int_increasing) simp_all
    with b(1) r(2) show False by simp
  qed
  have "(2::rat) ^ 53 < 2 ^ 1024" by (rule power_strict_increasing) simp_all
  with r(2) have "r < 2 ^ 1024" by (rule le_less_trans)
  then have lim: "of_int m < (2::rat) ^ 1024" by (simp only: r_def)
  show ?thesis
  proof (cases "e \<le> 52")
    case True
    define k where "k = nat (52 - e)"
    have u: "(2::rat) powi (e - 52) = inverse (2 ^ k)"
    proof -
      have "(2::rat) powi (e - 52) = 2 powi (- (52 - e))" by simp
      also have "\<dots> = inverse (2 powi (52 - e))" by (rule power_int_minus)
      also have "2 powi (52 - e) = (2::rat) ^ k" using True by (simp add: power_int_def k_def)
      finally show ?thesis .
    qed
    have q: "r / 2 powi (e - 52) = of_int (m * 2 ^ k)"
      by (simp add: u r_def field_simps)
    have n: "arredondar_par (r / 2 powi (e - 52)) = m * 2 ^ k"
      unfolding q by (rule arredondar_par_of_int)
    have v: "of_int (m * 2 ^ k) * 2 powi (e - 52) = (of_int m :: rat)"
      by (simp add: u field_simps)
    from fl_normal[OF b(1) b(2) _ n] e0 lim show ?thesis
      unfolding v r_def by simp
  next
    case False
    then have e: "e = 53" using e53 by simp
    have "(2::rat) ^ 53 \<le> r" using b(1) by (simp add: e)
    with r(2) have r53: "r = 2 ^ 53" by simp
    have n: "arredondar_par (r / 2 powi (e - 52)) = 2 ^ 52"
      using arredondar_par_of_int[of "2 ^ 52"] by (simp add: e r53)
    from fl_normal[OF b(1) b(2) _ n] have "fl r = Fin (of_int (2 ^ 52) * 2 powi (e - 52))"
      by (simp add: e)
    then show ?thesis unfolding r_def[symmetric] by (simp add: e r53)
  qed
qed

lemma fl_of_int:
  assumes "\<bar>m\<bar> \<le> 2 ^ 53"
  shows "fl (of_int m) = Fin (of_int m)"
proof -
  consider "m = 0" | "0 < m" | "m < 0" by linarith
  then show ?thesis
  proof cases
    case 1
    then show ?thesis by (simp add: fl_zero)
  next
    case 2
    then show ?thesis using assms by (intro fl_of_int_pos) simp_all
  next
    case 3
    then have "fl (of_int (- m)) = Fin (of_int (- m))"
      using assms by (intro fl_of_int_pos) simp_all
    from fl_uminus[OF this] show ?thesis by simp
  qed
qed

lemma fl_numeral [simp]:
  "numeral k \<le> (2::int) ^ 53 \<Longrightarrow> fl (numeral k) = Fin (numeral k)"
  "numeral k \<le> (2::int) ^ 53 \<Longrightarrow> fl (- numeral k) = Fin (- numeral k)"
  "fl 1 = Fin 1" "fl (- 1) = Fin (- 1)"
  using fl_of_int[of "numeral k"] fl_of_int[of "- numeral k"] fl_of_int[of 1] fl_of_int[of "- 1"]
  by simp_all

subsection \<open>The values the examples need\<close>

lemma fl_meio: "fl (1 / 2) = Fin (1 / 2)"
proof -
  have n: "arredondar_par ((1 / 2) / 2 powi (- 1 - 52)) = 4503599627370496"
    by (rule arredondar_par_eqI) simp_all
  show ?thesis using fl_normal[of "- 1" "1 / 2" 4503599627370496, OF _ _ _ n] by simp
qed

lemma fl_7_centesimos: "fl (7 / 100) = Fin (1261007895663739 / 18014398509481984)"
proof -
  have n: "arredondar_par ((7 / 100) / 2 powi (- 4 - 52)) = 5044031582654956"
    by (rule arredondar_par_eqI) simp_all
  show ?thesis using fl_normal[of "- 4" "7 / 100" 5044031582654956, OF _ _ _ n] by simp
qed

lemma fl_1_decimo: "fl (1 / 10) = Fin (3602879701896397 / 36028797018963968)"
proof -
  have n: "arredondar_par ((1 / 10) / 2 powi (- 4 - 52)) = 7205759403792794"
    by (rule arredondar_par_eqI) simp_all
  show ?thesis using fl_normal[of "- 4" "1 / 10" 7205759403792794, OF _ _ _ n] by simp
qed

lemma fl_2_decimos: "fl (1 / 5) = Fin (3602879701896397 / 18014398509481984)"
proof -
  have n: "arredondar_par ((1 / 5) / 2 powi (- 3 - 52)) = 7205759403792794"
    by (rule arredondar_par_eqI) simp_all
  show ?thesis using fl_normal[of "- 3" "1 / 5" 7205759403792794, OF _ _ _ n] by simp
qed

lemma fl_3_decimos_4: "fl (7500000000000001 / 25000000000000000) = Fin (1351079888211149 / 4503599627370496)"
proof -
  have n: "arredondar_par ((7500000000000001 / 25000000000000000) / 2 powi (- 2 - 52)) = 5404319552844596"
    by (rule arredondar_par_eqI) simp_all
  show ?thesis using fl_normal[of "- 2" "7500000000000001 / 25000000000000000" 5404319552844596, OF _ _ _ n] by simp
qed

lemma fl_1e16: "fl (10000000000000000) = Fin (10000000000000000)"
proof -
  have n: "arredondar_par ((10000000000000000) / 2 powi (53 - 52)) = 5000000000000000"
    by (rule arredondar_par_eqI) simp_all
  show ?thesis using fl_normal[of "53" "10000000000000000" 5000000000000000, OF _ _ _ n] by simp
qed

lemma fl_soma_decimos: "fl (10808639105689191 / 36028797018963968) = Fin (1351079888211149 / 4503599627370496)"
proof -
  have n: "arredondar_par ((10808639105689191 / 36028797018963968) / 2 powi (- 2 - 52)) = 5404319552844596"
    using arredondar_par_empate[of "(10808639105689191 / 36028797018963968) / 2 powi (- 2 - 52)" 5404319552844595] by simp
  show ?thesis using fl_normal[of "- 2" "10808639105689191 / 36028797018963968" 5404319552844596, OF _ _ _ n] by simp
qed

lemma fl_diferenca_decimos_pos: "fl (7205759403792795 / 36028797018963968) = Fin (7205759403792795 / 36028797018963968)"
proof -
  have n: "arredondar_par ((7205759403792795 / 36028797018963968) / 2 powi (- 3 - 52)) = 7205759403792795"
    by (rule arredondar_par_eqI) simp_all
  show ?thesis using fl_normal[of "- 3" "7205759403792795 / 36028797018963968" 7205759403792795, OF _ _ _ n] by simp
qed

lemma fl_diferenca_decimos: "fl (- (7205759403792795 / 36028797018963968)) = Fin (- (7205759403792795 / 36028797018963968))"
  using fl_uminus[OF fl_diferenca_decimos_pos] by simp

lemma fl_1e16_mais_1: "fl (10000000000000001) = Fin (10000000000000000)"
proof -
  have n: "arredondar_par ((10000000000000001) / 2 powi (53 - 52)) = 5000000000000000"
    using arredondar_par_empate[of "(10000000000000001) / 2 powi (53 - 52)" 5000000000000000] by simp
  show ?thesis using fl_normal[of "53" "10000000000000001" 5000000000000000, OF _ _ _ n] by simp
qed

lemma fl_1e16_menos_1: "fl (9999999999999999) = Fin (10000000000000000)"
proof -
  have n: "arredondar_par ((9999999999999999) / 2 powi (53 - 52)) = 5000000000000000"
    using arredondar_par_empate[of "(9999999999999999) / 2 powi (53 - 52)" 4999999999999999] by simp
  show ?thesis using fl_normal[of "53" "9999999999999999" 5000000000000000, OF _ _ _ n] by simp
qed

lemma fl_imposto_100: "fl (31525197391593475 / 4503599627370496) = Fin (7881299347898369 / 1125899906842624)"
proof -
  have n: "arredondar_par ((31525197391593475 / 4503599627370496) / 2 powi (2 - 52)) = 7881299347898369"
    by (rule arredondar_par_eqI) simp_all
  show ?thesis using fl_normal[of "2" "31525197391593475 / 4503599627370496" 7881299347898369, OF _ _ _ n] by simp
qed

lemma fl_imposto_1000: "fl (157625986957967375 / 2251799813685248) = Fin (70)"
proof -
  have n: "arredondar_par ((157625986957967375 / 2251799813685248) / 2 powi (6 - 52)) = 4925812092436480"
    by (rule arredondar_par_eqI) simp_all
  show ?thesis using fl_normal[of "6" "157625986957967375 / 2251799813685248" 4925812092436480, OF _ _ _ n] by simp
qed

lemma fl_meio_por_cento: "fl (1 / 200) = Fin (5764607523034235 / 1152921504606846976)"
proof -
  have n: "arredondar_par ((1 / 200) / 2 powi (- 8 - 52)) = 5764607523034235"
    by (rule arredondar_par_eqI) simp_all
  show ?thesis using fl_normal[of "- 8" "1 / 200" 5764607523034235, OF _ _ _ n] by simp
qed

lemma fl_rendimento_5000: "fl (3602879701896396875 / 144115188075855872) = Fin (25)"
proof -
  have n: "arredondar_par ((3602879701896396875 / 144115188075855872) / 2 powi (4 - 52)) = 7036874417766400"
    by (rule arredondar_par_eqI) simp_all
  show ?thesis using fl_normal[of "4" "3602879701896396875 / 144115188075855872" 7036874417766400, OF _ _ _ n] by simp
qed

lemma fl_5e_324: "fl (1 / 200000000000000000000000000000000000000000000000000000000000000000000000000000000000000000000000000000000000000000000000000000000000000000000000000000000000000000000000000000000000000000000000000000000000000000000000000000000000000000000000000000000000000000000000000000000000000000000000000000000000000000000000000000000000) = Fin (1 / 202402253307310618352495346718917307049556649764142118356901358027430339567995346891960383701437124495187077864316811911389808737385793476867013399940738509921517424276566361364466907742093216341239767678472745068562007483424692698618103355649159556340810056512358769552333414615230502532186327508646006263307707741093494784)"
proof -
  have n: "arredondar_par ((1 / 200000000000000000000000000000000000000000000000000000000000000000000000000000000000000000000000000000000000000000000000000000000000000000000000000000000000000000000000000000000000000000000000000000000000000000000000000000000000000000000000000000000000000000000000000000000000000000000000000000000000000000000000000000000000) / 2 powi (- 1074)) = 1"
    by (rule arredondar_par_eqI) simp_all
  show ?thesis using fl_subnormal[of "1 / 200000000000000000000000000000000000000000000000000000000000000000000000000000000000000000000000000000000000000000000000000000000000000000000000000000000000000000000000000000000000000000000000000000000000000000000000000000000000000000000000000000000000000000000000000000000000000000000000000000000000000000000000000000000000" 1, OF _ _ n] by simp
qed

lemma fl_rendimento_5e_324: "fl (5764607523034235 / 233353910418880727661256384732077510105651144956362911415845480235747138199203332221171813728935134095443132426733051477601848634166855433083853213845102789634950534711763847553671963489593331907699786423270522774078818428325018686634247330308151332263564460639475875364779673017561538689090903124122342061853585179019296811159813378942173184) = Fin (0)"
proof -
  have n: "arredondar_par ((5764607523034235 / 233353910418880727661256384732077510105651144956362911415845480235747138199203332221171813728935134095443132426733051477601848634166855433083853213845102789634950534711763847553671963489593331907699786423270522774078818428325018686634247330308151332263564460639475875364779673017561538689090903124122342061853585179019296811159813378942173184) / 2 powi (- 1074)) = 0"
    by (rule arredondar_par_eqI) simp_all
  show ?thesis using fl_subnormal[of "5764607523034235 / 233353910418880727661256384732077510105651144956362911415845480235747138199203332221171813728935134095443132426733051477601848634166855433083853213845102789634950534711763847553671963489593331907699786423270522774078818428325018686634247330308151332263564460639475875364779673017561538689090903124122342061853585179019296811159813378942173184" 0, OF _ _ n] by simp
qed

lemma fl_minimo: "fl (1 / 202402253307310618352495346718917307049556649764142118356901358027430339567995346891960383701437124495187077864316811911389808737385793476867013399940738509921517424276566361364466907742093216341239767678472745068562007483424692698618103355649159556340810056512358769552333414615230502532186327508646006263307707741093494784) = Fin (1 / 202402253307310618352495346718917307049556649764142118356901358027430339567995346891960383701437124495187077864316811911389808737385793476867013399940738509921517424276566361364466907742093216341239767678472745068562007483424692698618103355649159556340810056512358769552333414615230502532186327508646006263307707741093494784)"
proof -
  have n: "arredondar_par ((1 / 202402253307310618352495346718917307049556649764142118356901358027430339567995346891960383701437124495187077864316811911389808737385793476867013399940738509921517424276566361364466907742093216341239767678472745068562007483424692698618103355649159556340810056512358769552333414615230502532186327508646006263307707741093494784) / 2 powi (- 1074)) = 1"
    by (rule arredondar_par_eqI) simp_all
  show ?thesis using fl_subnormal[of "1 / 202402253307310618352495346718917307049556649764142118356901358027430339567995346891960383701437124495187077864316811911389808737385793476867013399940738509921517424276566361364466907742093216341239767678472745068562007483424692698618103355649159556340810056512358769552333414615230502532186327508646006263307707741093494784" 1, OF _ _ n] by simp
qed

section \<open>Properties of the account operations\<close>

lemma dle_dlt:
  "x \<noteq> NaN \<Longrightarrow> y \<noteq> NaN \<Longrightarrow> (\<not> dle x y) = dlt y x"
  "x \<noteq> NaN \<Longrightarrow> y \<noteq> NaN \<Longrightarrow> (\<not> dlt x y) = dle y x"
  by (cases x; cases y; auto)+

lemma dlt_dle: "dlt x y \<Longrightarrow> \<not> dle y x"
  by (cases x; cases y; auto)

lemma dle_NaN [simp]: "\<not> dle x NaN" "\<not> dlt x NaN"
  by (cases x; simp)+

lemma py_strip_Saque: "py_strip ''Saque'' = ''Saque''"
  by (simp add: py_strip_def py_isspace_def)

lemma py_strip_Deposito: "py_strip str_Deposito = str_Deposito"
  by (simp add: py_strip_def py_isspace_def)

lemma py_strip_Rendimento: "py_strip ''Rendimento'' = ''Rendimento''"
  by (simp add: py_strip_def py_isspace_def)


lemma Transacao_Inr:
  "\<not> dle v (Fin 0) \<Longrightarrow> py_strip t \<noteq> [] \<Longrightarrow>
   Transacao t v a = Inr \<lparr>tipo = py_strip t, valor = v, conta = a\<rparr>"
  by (simp add: Transacao_def)

lemma sacar_Corrente:
  "variante c = Corrente L tx \<Longrightarrow>
   sacar c x =
     (if dle x (Fin 0) then Inl (ValorInvalidoError x)
      else if dlt (dadd (saldo c) L) x then Inl (LimiteExcedidoError (dadd (saldo c) L) x)
      else Inr (c\<lparr>saldo := dsub (saldo c) x\<rparr>))"
  by (simp add: sacar_def ContaCorrente_sacar_def)

lemma sacar_Poupanca:
  "variante c = Poupanca tr dia \<Longrightarrow>
   sacar c x =
     (if dle x (Fin 0) then Inl (ValorInvalidoError x)
      else if dlt (saldo c) x then Inl (SaldoInsuficienteError (saldo c) x)
      else Inr (c\<lparr>saldo := dsub (saldo c) x\<rparr>))"
  by (simp add: sacar_def ContaPoupanca_sacar_def)

lemma sacar_Inr:
  assumes "sacar c0 v = Inr c"
  shows "c = c0\<lparr>saldo := dsub (saldo c0) v\<rparr>" "\<not> dle v (Fin 0)"
  using assms
  by (auto simp: sacar_def ContaCorrente_sacar_def ContaPoupanca_sacar_def Let_def
      split: variante.splits if_splits)

lemma realizar_saque_Inl:
  "sacar (h a) x = Inl e \<Longrightarrow> realizar_saque h a x = (Some e, h)"
  by (simp add: realizar_saque_def)

lemma realizar_saque_Inr:
  "sacar (h a) x = Inr c \<Longrightarrow>
   realizar_saque h a x =
     (None, h(a := c\<lparr>transacoes := transacoes c @ [\<lparr>tipo = ''Saque'', valor = x, conta = a\<rparr>]\<rparr>))"
  using sacar_Inr(2)[of "h a" x c]
  by (simp add: realizar_saque_def Transacao_Inr py_strip_Saque append_transacao_def)

lemma realizar_saque_Corrente:
  assumes "variante (h a) = Corrente L tx"
  shows "realizar_saque h a x =
     (if dle x (Fin 0) then (Some (ValorInvalidoError x), h)
      else if dlt (dadd (saldo (h a)) L) x
      then (Some (LimiteExcedidoError (dadd (saldo (h a)) L) x), h)
      else (None, h(a := (h a)\<lparr>saldo := dsub (saldo (h a)) x,
              transacoes := transacoes (h a) @ [\<lparr>tipo = ''Saque'', valor = x, conta = a\<rparr>]\<rparr>)))"
proof -
  note s = sacar_Corrente[of "h a" L tx x, OF assms]
  show ?thesis
  proof (cases "dle x (Fin 0) \<or> dlt (dadd (saldo (h a)) L) x")
    case True
    then show ?thesis using s by (auto simp: realizar_saque_Inl)
  next
    case False
    then have "sacar (h a) x = Inr ((h a)\<lparr>saldo := dsub (saldo (h a)) x\<rparr>)"
      using s by auto
    from realizar_saque_Inr[of h a x, OF this] False show ?thesis by simp
  qed
qed

lemma realizar_saque_Poupanca:
  assumes "variante (h a) = Poupanca tr dia"
  shows "realizar_saque h a x =
     (if dle x (Fin 0) then (Some (ValorInvalidoError x), h)
      else if dlt (saldo (h a)) x then (Some (SaldoInsuficienteError (saldo (h a)) x), h)
      else (None, h(a := (h a)\<lparr>saldo := dsub (saldo (h a)) x,
              transacoes := transacoes (h a) @ [\<lparr>tipo = ''Saque'', valor = x, conta = a\<rparr>]\<rparr>)))"
proof -
  note s = sacar_Poupanca[of "h a" tr dia x, OF assms]
  show ?thesis
  proof (cases "dle x (Fin 0) \<or> dlt (saldo (h a)) x")
    case True
    then show ?thesis using s by (auto simp: realizar_saque_Inl)
  next
    case False
    then have "sacar (h a) x = Inr ((h a)\<lparr>saldo := dsub (saldo (h a)) x\<rparr>)"
      using s by auto
    from realizar_saque_Inr[of h a x, OF this] False show ?thesis by simp
  qed
qed

lemma heap_padrao_campos:
  "saldo (heap_padrao 0) = Fin 1000" "transacoes (heap_padrao 0) = []"
  "variante (heap_padrao 0) = Corrente (Fin 500) (Fin 10)" "numero (heap_padrao 0) = ''12345-6''"
  "saldo (heap_padrao (Suc 0)) = Fin 5000" "transacoes (heap_padrao (Suc 0)) = []"
  "variante (heap_padrao (Suc 0)) = Poupanca (Fin (1 / 2)) 15"
  "numero (heap_padrao (Suc 0)) = ''98765-4''"
  by (simp_all add: heap_padrao_def conta_corrente_padrao_def conta_poupanca_padrao_def fl_meio)

lemma heap_decimos_campos:
  "saldo (heap_decimos a) = Fin (3602879701896397 / 36028797018963968)"
  "variante (heap_decimos a) = Corrente (Fin (3602879701896397 / 18014398509481984)) (Fin 10)"
  "transacoes (heap_decimos a) = []"
  by (simp_all add: heap_decimos_def conta_corrente_padrao_def fl_1_decimo fl_2_decimos)

lemma heap_grande_campos:
  "saldo (heap_grande a) = Fin 10000000000000000"
  "variante (heap_grande 0) = Corrente (Fin 500) (Fin 10)"
  "variante (heap_grande (Suc 0)) = Poupanca (Fin (1 / 2)) 15"
  "transacoes (heap_grande a) = []"
  by (simp_all add: heap_grande_def heap_padrao_def conta_corrente_padrao_def
      conta_poupanca_padrao_def fl_1e16 fl_meio)

text \<open>
  C1, as the specification states it, fails in two ways. An amount of NaN is neither
  refused as non-positive nor as above the limit, so the withdrawal succeeds although
  \<open>0 < x\<close> is false. And the limit is compared with the rounded sum: with balance
  \<open>0.1\<close> and limit \<open>0.2\<close>, the amount \<open>0.30000000000000004\<close> is above the exact sum of
  the two, yet it equals their double sum, and the withdrawal succeeds, leaving
  \<open>-0.20000000000000004\<close>.
\<close>

theorem C1_saque_counterexample:
  "fst (realizar_saque heap_padrao 0 NaN) = None \<and> \<not> dlt (Fin 0) NaN \<and>
   saldo (heap_decimos 0) = Fin (3602879701896397 / 36028797018963968) \<and>
   variante (heap_decimos 0) = Corrente (Fin (3602879701896397 / 18014398509481984)) (Fin 10) \<and>
   fl 0.30000000000000004 = Fin (1351079888211149 / 4503599627370496) \<and>
   (3602879701896397 / 36028797018963968 + 3602879701896397 / 18014398509481984
      < (1351079888211149 / 4503599627370496 :: rat)) \<and>
   fst (realizar_saque heap_decimos 0 (fl 0.30000000000000004)) = None \<and>
   saldo (snd (realizar_saque heap_decimos 0 (fl 0.30000000000000004)) 0) =
     Fin (- (7205759403792795 / 36028797018963968))"
  by (simp add: realizar_saque_Corrente[of heap_padrao 0 "Fin 500" "Fin 10"]
      realizar_saque_Corrente[of heap_decimos 0 "Fin (3602879701896397 / 18014398509481984)" "Fin 10"]
      heap_padrao_campos heap_decimos_campos fl_3_decimos_4 fl_soma_decimos fl_diferenca_decimos)

text \<open>
  C1, amended. For a checking account with balance \<open>B\<close> and limit \<open>L\<close> and an amount
  \<open>x\<close>, neither \<open>x\<close> nor the double sum \<open>B + L\<close> being NaN, \<open>realizar_saque\<close> returns
  normally exactly when \<open>0 < x\<close> and \<open>x\<close> is at most the double sum \<open>B + L\<close>. The amount
  is checked first: \<open>x \<le> 0\<close> raises \<open>ValorInvalidoError\<close>; a positive amount above the
  double sum raises \<open>LimiteExcedidoError\<close> with that sum and \<open>x\<close>. On success the balance
  is the double difference \<open>B - x\<close> and one transaction \<open>Saque\<close> of amount \<open>x\<close> is
  appended; when an error is raised the store is unchanged.
\<close>

theorem C1_saque_conta_corrente:
  assumes "variante (h a) = Corrente L tx" and "x \<noteq> NaN" and "dadd (saldo (h a)) L \<noteq> NaN"
  shows "(fst (realizar_saque h a x) = None \<longleftrightarrow>
            dlt (Fin 0) x \<and> dle x (dadd (saldo (h a)) L)) \<and>
    (dle x (Fin 0) \<longrightarrow> realizar_saque h a x = (Some (ValorInvalidoError x), h)) \<and>
    (dlt (Fin 0) x \<and> dlt (dadd (saldo (h a)) L) x \<longrightarrow>
       realizar_saque h a x = (Some (LimiteExcedidoError (dadd (saldo (h a)) L) x), h)) \<and>
    (dlt (Fin 0) x \<and> dle x (dadd (saldo (h a)) L) \<longrightarrow>
       realizar_saque h a x =
         (None, h(a := (h a)\<lparr>saldo := dsub (saldo (h a)) x,
            transacoes := transacoes (h a) @ [\<lparr>tipo = ''Saque'', valor = x, conta = a\<rparr>]\<rparr>))) \<and>
    (fst (realizar_saque h a x) \<noteq> None \<longrightarrow> snd (realizar_saque h a x) = h)"
proof -
  have 1: "(\<not> dle x (Fin 0)) = dlt (Fin 0) x" using assms(2) by (simp add: dle_dlt)
  have 2: "(\<not> dlt (dadd (saldo (h a)) L) x) = dle x (dadd (saldo (h a)) L)"
    using assms(2,3) by (simp add: dle_dlt)
  show ?thesis
    unfolding realizar_saque_Corrente[of h a L tx x, OF assms(1)]
    using 1 2 by auto
qed

theorem C1_saque_conta_corrente_witness:
  "variante (heap_padrao 0) = Corrente (Fin 500) (Fin 10) \<and> Fin (- 1) \<noteq> NaN \<and>
   dadd (saldo (heap_padrao 0)) (Fin 500) = Fin 1500 \<and>
   realizar_saque heap_padrao 0 (Fin (- 1)) = (Some (ValorInvalidoError (Fin (- 1))), heap_padrao) \<and>
   realizar_saque heap_padrao 0 (Fin 2000) =
     (Some (LimiteExcedidoError (Fin 1500) (Fin 2000)), heap_padrao) \<and>
   fst (realizar_saque heap_padrao 0 (Fin 1200)) = None \<and>
   saldo (snd (realizar_saque heap_padrao 0 (Fin 1200)) 0) = Fin (- 200) \<and>
   length (transacoes (snd (realizar_saque heap_padrao 0 (Fin 1200)) 0)) = 1"
proof -
  have v: "variante (heap_padrao 0) = Corrente (Fin 500) (Fin 10)"
    by (simp add: heap_padrao_campos)
  have s: "dadd (saldo (heap_padrao 0)) (Fin 500) = Fin 1500"
    by (simp add: heap_padrao_campos)
  have n: "dadd (saldo (heap_padrao 0)) (Fin 500) \<noteq> NaN" by (simp add: s)
  show ?thesis
    using v s
      C1_saque_conta_corrente[of heap_padrao 0 "Fin 500" "Fin 10" "Fin (- 1)", OF v _ n]
      C1_saque_conta_corrente[of heap_padrao 0 "Fin 500" "Fin 10" "Fin 2000", OF v _ n]
      C1_saque_conta_corrente[of heap_padrao 0 "Fin 500" "Fin 10" "Fin 1200", OF v _ n]
    by (simp add: heap_padrao_campos)
qed

text \<open>
  C2, as the specification states it, fails in two ways. With a balance of \<open>1e16\<close> a
  withdrawal of 1 succeeds and the balance stays \<open>1e16\<close>, the difference being rounded,
  not \<open>B - x\<close>. And an amount of NaN passes both checks, so the withdrawal succeeds
  although \<open>0 < x\<close> is false.
\<close>

theorem C2_saque_counterexample:
  "variante (heap_grande 1) = Poupanca (Fin (1 / 2)) 15 \<and>
   saldo (heap_grande 1) = Fin 10000000000000000 \<and>
   sacar (heap_grande 1) (Fin 1) = Inr ((heap_grande 1)\<lparr>saldo := Fin 10000000000000000\<rparr>) \<and>
   (10000000000000000 - 1 \<noteq> (10000000000000000 :: rat)) \<and>
   variante (heap_padrao 1) = Poupanca (Fin (1 / 2)) 15 \<and>
   sacar (heap_padrao 1) NaN = Inr ((heap_padrao 1)\<lparr>saldo := NaN\<rparr>) \<and>
   \<not> dlt (Fin 0) NaN"
  by (simp add: sacar_Poupanca[of "heap_grande (Suc 0)" "Fin (1 / 2)" 15]
      sacar_Poupanca[of "heap_padrao (Suc 0)" "Fin (1 / 2)" 15]
      heap_grande_campos heap_padrao_campos fl_1e16_menos_1)

text \<open>
  C2, amended. For a savings account with balance \<open>B\<close> and an amount \<open>x\<close>, neither being
  NaN, \<open>ContaPoupanca.sacar\<close> succeeds exactly when \<open>0 < x \<le> B\<close>. The amount is checked
  first: \<open>x \<le> 0\<close> raises \<open>ValorInvalidoError\<close>; a positive amount above \<open>B\<close> raises
  \<open>SaldoInsuficienteError\<close> with \<open>B\<close> and \<open>x\<close>. On success the balance is the double
  difference \<open>B - x\<close>. When the method raises, the service around it leaves the store,
  and so the balance and the log, unchanged.
\<close>

theorem C2_saque_conta_poupanca:
  assumes "variante (h a) = Poupanca tr dia" and "x \<noteq> NaN" and "saldo (h a) \<noteq> NaN"
  shows "((\<exists>c. sacar (h a) x = Inr c) \<longleftrightarrow> dlt (Fin 0) x \<and> dle x (saldo (h a))) \<and>
    (dle x (Fin 0) \<longrightarrow> sacar (h a) x = Inl (ValorInvalidoError x) \<and>
       realizar_saque h a x = (Some (ValorInvalidoError x), h)) \<and>
    (dlt (Fin 0) x \<and> dlt (saldo (h a)) x \<longrightarrow>
       sacar (h a) x = Inl (SaldoInsuficienteError (saldo (h a)) x) \<and>
       realizar_saque h a x = (Some (SaldoInsuficienteError (saldo (h a)) x), h)) \<and>
    (dlt (Fin 0) x \<and> dle x (saldo (h a)) \<longrightarrow>
       sacar (h a) x = Inr ((h a)\<lparr>saldo := dsub (saldo (h a)) x\<rparr>) \<and>
       realizar_saque h a x =
         (None, h(a := (h a)\<lparr>saldo := dsub (saldo (h a)) x,
            transacoes := transacoes (h a) @ [\<lparr>tipo = ''Saque'', valor = x, conta = a\<rparr>]\<rparr>)))"
proof -
  have 1: "(\<not> dle x (Fin 0)) = dlt (Fin 0) x" using assms(2) by (simp add: dle_dlt)
  have 2: "(\<not> dlt (saldo (h a)) x) = dle x (saldo (h a))"
    using assms(2,3) by (simp add: dle_dlt)
  show ?thesis
    unfolding realizar_saque_Poupanca[of h a tr dia x, OF assms(1)]
      sacar_Poupanca[of "h a" tr dia x, OF assms(1)]
    using 1 2 by auto
qed

theorem C2_saque_conta_poupanca_witness:
  "variante (heap_padrao 1) = Poupanca (Fin (1 / 2)) 15 \<and> saldo (heap_padrao 1) = Fin 5000 \<and>
   sacar (heap_padrao 1) (Fin 0) = Inl (ValorInvalidoError (Fin 0)) \<and>
   realizar_saque heap_padrao 1 (Fin 0) = (Some (ValorInvalidoError (Fin 0)), heap_padrao) \<and>
   sacar (heap_padrao 1) (Fin 10000) = Inl (SaldoInsuficienteError (Fin 5000) (Fin 10000)) \<and>
   realizar_saque heap_padrao 1 (Fin 10000) =
     (Some (SaldoInsuficienteError (Fin 5000) (Fin 10000)), heap_padrao) \<and>
   sacar (heap_padrao 1) (Fin 5000) = Inr ((heap_padrao 1)\<lparr>saldo := Fin 0\<rparr>)"
proof -
  have v: "variante (heap_padrao 1) = Poupanca (Fin (1 / 2)) 15"
    by (simp add: heap_padrao_campos)
  have s: "saldo (heap_padrao (Suc 0)) = Fin 5000" by (simp add: heap_padrao_campos)
  have n: "saldo (heap_padrao 1) \<noteq> NaN" by (simp add: s)
  show ?thesis
    using v s
      C2_saque_conta_poupanca[of heap_padrao 1 "Fin (1 / 2)" 15 "Fin 0", OF v _ n]
      C2_saque_conta_poupanca[of heap_padrao 1 "Fin (1 / 2)" 15 "Fin 10000", OF v _ n]
      C2_saque_conta_poupanca[of heap_padrao 1 "Fin (1 / 2)" 15 "Fin 5000", OF v _ n]
    by (simp add: fl_zero)
qed

lemma realizar_deposito_eq:
  "realizar_deposito h a v =
     (if dle v (Fin 0) then (Some (ValorInvalidoError v), h)
      else (None, h(a := (h a)\<lparr>saldo := dadd (saldo (h a)) v,
              transacoes := transacoes (h a) @ [\<lparr>tipo = str_Deposito, valor = v, conta = a\<rparr>]\<rparr>)))"
  by (simp add: realizar_deposito_def Transacao_def py_strip_Deposito[simplified]
      append_transacao_def)

lemma realizar_depositos_positivos:
  "list_all (\<lambda>v. dlt (Fin 0) v) vs \<Longrightarrow>
   \<exists>h'. realizar_depositos h a vs = (None, h') \<and>
        saldo (h' a) = foldl dadd (saldo (h a)) vs \<and>
        length (transacoes (h' a)) = length (transacoes (h a)) + length vs"
proof (induction vs arbitrary: h)
  case Nil
  then show ?case by simp
next
  case (Cons v vs)
  then have pos: "\<not> dle v (Fin 0)" and rest: "list_all (\<lambda>v. dlt (Fin 0) v) vs"
    by (simp_all add: dlt_dle)
  define h1 where "h1 = h(a := (h a)\<lparr>saldo := dadd (saldo (h a)) v,
      transacoes := transacoes (h a) @ [\<lparr>tipo = str_Deposito, valor = v, conta = a\<rparr>]\<rparr>)"
  have step: "realizar_deposito h a v = (None, h1)"
    using pos by (simp add: realizar_deposito_eq h1_def)
  from Cons.IH[OF rest, of h1] obtain h' where
    h': "realizar_depositos h1 a vs = (None, h')"
      "saldo (h' a) = foldl dadd (saldo (h1 a)) vs"
      "length (transacoes (h' a)) = length (transacoes (h1 a)) + length vs"
    by blast
  have "realizar_depositos h a (v # vs) = (None, h')"
    using step h'(1) by simp
  moreover have "saldo (h' a) = foldl dadd (saldo (h a)) (v # vs)"
    using h'(2) by (simp add: h1_def)
  moreover have "length (transacoes (h' a)) = length (transacoes (h a)) + length (v # vs)"
    using h'(3) by (simp add: h1_def)
  ultimately show ?case by blast
qed

text \<open>
  C4, as the specification states it, fails: on a balance of \<open>1e16\<close> two deposits of 1
  both return normally and log two transactions, but each sum is rounded back to
  \<open>1e16\<close>, so the final balance is not the initial balance plus the sum of the amounts.
\<close>

theorem C4_deposito_counterexample:
  "saldo (heap_grande 0) = Fin 10000000000000000 \<and>
   dlt (Fin 0) (Fin 1) \<and>
   fst (realizar_depositos heap_grande 0 [Fin 1, Fin 1]) = None \<and>
   saldo (snd (realizar_depositos heap_grande 0 [Fin 1, Fin 1]) 0) = Fin 10000000000000000 \<and>
   length (transacoes (snd (realizar_depositos heap_grande 0 [Fin 1, Fin 1]) 0)) = 2 \<and>
   (10000000000000000 + (1 + 1) \<noteq> (10000000000000000 :: rat)) \<and>
   saldo (snd (realizar_deposito heap_grande 0 (Fin 1)) 0) = Fin 10000000000000000"
  by (simp add: realizar_deposito_eq heap_grande_campos fl_1e16_mais_1)

text \<open>
  C4, amended. A deposit of an amount \<open>v \<le> 0\<close> raises \<open>ValorInvalidoError\<close> and leaves
  the store unchanged; a deposit of any \<open>v > 0\<close> replaces the balance by the double sum
  of balance and \<open>v\<close> and appends one deposit transaction of amount \<open>v\<close>. A sequence of
  deposits of positive amounts therefore all return normally, the final balance is the
  initial one with the amounts added one after the other in double arithmetic, and the
  log has grown by the number of deposits.
\<close>

theorem C4_realizar_deposito:
  "(dle v (Fin 0) \<longrightarrow> realizar_deposito h a v = (Some (ValorInvalidoError v), h)) \<and>
   (dlt (Fin 0) v \<longrightarrow>
      realizar_deposito h a v =
        (None, h(a := (h a)\<lparr>saldo := dadd (saldo (h a)) v,
           transacoes := transacoes (h a) @ [\<lparr>tipo = str_Deposito, valor = v, conta = a\<rparr>]\<rparr>))) \<and>
   (list_all (\<lambda>v. dlt (Fin 0) v) vs \<longrightarrow>
      (\<exists>h'. realizar_depositos h a vs = (None, h') \<and>
            saldo (h' a) = foldl dadd (saldo (h a)) vs \<and>
            length (transacoes (h' a)) = length (transacoes (h a)) + length vs))"
  using realizar_depositos_positivos[of vs h a] dlt_dle[of "Fin 0" v]
  by (simp add: realizar_deposito_eq)

theorem C4_realizar_deposito_witness:
  "realizar_deposito heap_padrao 0 (Fin (- 100)) =
     (Some (ValorInvalidoError (Fin (- 100))), heap_padrao) \<and>
   fst (realizar_deposito heap_padrao 0 (Fin 500)) = None \<and>
   saldo (snd (realizar_deposito heap_padrao 0 (Fin 500)) 0) = Fin 1500 \<and>
   list_all (\<lambda>v. dlt (Fin 0) v) [Fin 500, Fin 300] \<and>
   fst (realizar_depositos heap_padrao 0 [Fin 500, Fin 300]) = None \<and>
   saldo (snd (realizar_depositos heap_padrao 0 [Fin 500, Fin 300]) 0) = Fin 1800 \<and>
   length (transacoes (snd (realizar_depositos heap_padrao 0 [Fin 500, Fin 300]) 0)) = 2"
  using C4_realizar_deposito[of "Fin (- 100)" heap_padrao 0 "[]"]
    C4_realizar_deposito[of "Fin 500" heap_padrao 0 "[Fin 500, Fin 300]"]
  by (auto simp: heap_padrao_campos)

lemma py_strip_id:
  assumes "s \<noteq> []" "\<not> py_isspace (hd s)" "\<not> py_isspace (last s)"
  shows "py_strip s = s"
proof -
  have 1: "dropWhile py_isspace s = s"
    using assms(1,2) by (cases s) simp_all
  have 2: "dropWhile py_isspace (rev s) = rev s"
    using assms(1,3) by (cases "rev s") (simp_all add: last_rev[symmetric] del: last_rev)
  show ?thesis by (simp add: py_strip_def 1 2)
qed

lemma numero_valido_last:
  assumes "numero_valido n"
  shows "n \<noteq> []" "\<not> py_isspace (last n)"
proof -
  show ne: "n \<noteq> []" using assms by (simp add: numero_valido_def)
  define m where "m = dropWhile py_isspace n"
  have "rev (dropWhile py_isspace (rev m)) = n"
    using assms by (simp add: numero_valido_def py_strip_def m_def)
  then have eq: "dropWhile py_isspace (rev m) = rev n"
    by (metis rev_rev_ident)
  then have "dropWhile py_isspace (rev m) \<noteq> []" using ne by simp
  from hd_dropWhile[OF this] have "\<not> py_isspace (hd (rev n))" by (simp add: eq)
  then show "\<not> py_isspace (last n)" using ne by (simp add: hd_rev)
qed

lemma py_strip_Transf_para:
  assumes "numero_valido n"
  shows "py_strip (''Transf. para '' @ n) = ''Transf. para '' @ n"
  using numero_valido_last[OF assms]
  by (intro py_strip_id) (simp_all add: py_isspace_def)

lemma py_strip_Transf_de:
  assumes "numero_valido n"
  shows "py_strip (''Transf. de '' @ n) = ''Transf. de '' @ n"
  using numero_valido_last[OF assms]
  by (intro py_strip_id) (simp_all add: py_isspace_def)

lemma transferir_Inl:
  "sacar (h origem) v = Inl e \<Longrightarrow> transferir h origem destino v = (Some e, h)"
  by (simp add: transferir_def)

lemma transferir_Inr:
  assumes s: "sacar (h origem) v = Inr c"
    and d: "origem \<noteq> destino"
    and no: "numero_valido (numero (h origem))"
    and nd: "numero_valido (numero (h destino))"
  shows "transferir h origem destino v =
    (None, h(origem := (h origem)\<lparr>saldo := dsub (saldo (h origem)) v,
               transacoes := transacoes (h origem) @
                 [\<lparr>tipo = ''Transf. para '' @ numero (h destino), valor = v, conta = origem\<rparr>]\<rparr>,
             destino := (h destino)\<lparr>saldo := dadd (saldo (h destino)) v,
               transacoes := transacoes (h destino) @
                 [\<lparr>tipo = ''Transf. de '' @ numero (h origem), valor = v, conta = destino\<rparr>]\<rparr>))"
proof -
  note c = sacar_Inr[OF s]
  have t1: "Transacao (''Transf. para '' @ numero (h destino)) v origem =
      Inr \<lparr>tipo = ''Transf. para '' @ numero (h destino), valor = v, conta = origem\<rparr>"
    using c(2) py_strip_Transf_para[OF nd] by (simp add: Transacao_def)
  have t2: "Transacao (''Transf. de '' @ numero (h origem)) v destino =
      Inr \<lparr>tipo = ''Transf. de '' @ numero (h origem), valor = v, conta = destino\<rparr>"
    using c(2) py_strip_Transf_de[OF no] by (simp add: Transacao_def)
  show ?thesis
    using d t1 t2 by (simp add: transferir_def s c(1) append_transacao_def Let_def fun_upd_twist)
qed

lemma numero_valido_padrao:
  "numero_valido (numero (heap_padrao 0))" "numero_valido (numero (heap_padrao (Suc 0)))"
  by (simp_all add: heap_padrao_def conta_corrente_padrao_def conta_poupanca_padrao_def
      numero_valido_def py_strip_def py_isspace_def)

lemma transferir_padrao_400:
  "transferir heap_padrao 0 (Suc 0) (Fin 400) =
    (None, heap_padrao(0 := (heap_padrao 0)\<lparr>saldo := Fin 600,
               transacoes := [\<lparr>tipo = ''Transf. para 98765-4'', valor = Fin 400, conta = 0\<rparr>]\<rparr>,
             Suc 0 := (heap_padrao (Suc 0))\<lparr>saldo := Fin 5400,
               transacoes := [\<lparr>tipo = ''Transf. de 12345-6'', valor = Fin 400, conta = Suc 0\<rparr>]\<rparr>))"
proof -
  have s: "sacar (heap_padrao 0) (Fin 400) =
      Inr ((heap_padrao 0)\<lparr>saldo := dsub (saldo (heap_padrao 0)) (Fin 400)\<rparr>)"
    by (simp add: sacar_Corrente[of "heap_padrao 0" "Fin 500" "Fin 10"] heap_padrao_campos)
  have d: "(0::nat) \<noteq> Suc 0" by simp
  show ?thesis
    using transferir_Inr[of heap_padrao 0 "Fin 400", OF s d numero_valido_padrao]
    by (simp add: heap_padrao_campos)
qed

lemma transferir_padrao_10000:
  "transferir heap_padrao 0 (Suc 0) (Fin 10000) =
     (Some (LimiteExcedidoError (Fin 1500) (Fin 10000)), heap_padrao)"
proof -
  have s: "sacar (heap_padrao 0) (Fin 10000) = Inl (LimiteExcedidoError (Fin 1500) (Fin 10000))"
    by (simp add: sacar_Corrente[of "heap_padrao 0" "Fin 500" "Fin 10"] heap_padrao_campos)
  show ?thesis by (rule transferir_Inl[of heap_padrao 0, OF s])
qed

text \<open>
  C3. A transfer between two different accounts whose numbers are as the constructor
  stores them. If \<open>sacar\<close> on the source raises, the same error leaves \<open>transferir\<close> and
  the store is unchanged: no deposit, no transaction on either side. If \<open>sacar\<close> succeeds,
  the source has the balance \<open>sacar\<close> gives it and one transaction labelled with the
  number of the destination, and the destination has \<open>v\<close> added to its balance, with no
  check, and one transaction labelled with the number of the source. On the accounts of
  the test suite (checking, balance 1000, limit 500; savings, balance 5000), transferring
  400 gives balances 600 and 5400 and one new transaction on each side, and transferring
  10000 raises \<open>LimiteExcedidoError\<close> with the store unchanged.
\<close>

theorem C3_transferir:
  assumes "origem \<noteq> destino"
    and "numero_valido (numero (h origem))"
    and "numero_valido (numero (h destino))"
  shows "(sacar (h origem) v = Inl e \<longrightarrow> transferir h origem destino v = (Some e, h)) \<and>
    (sacar (h origem) v = Inr c \<longrightarrow>
       transferir h origem destino v =
         (None, h(origem := (h origem)\<lparr>saldo := dsub (saldo (h origem)) v,
               transacoes := transacoes (h origem) @
                 [\<lparr>tipo = ''Transf. para '' @ numero (h destino), valor = v, conta = origem\<rparr>]\<rparr>,
             destino := (h destino)\<lparr>saldo := dadd (saldo (h destino)) v,
               transacoes := transacoes (h destino) @
                 [\<lparr>tipo = ''Transf. de '' @ numero (h origem), valor = v, conta = destino\<rparr>]\<rparr>))) \<and>
    saldo (heap_padrao 0) = fl 1000 \<and> variante (heap_padrao 0) = Corrente (fl 500) (fl 10) \<and>
    saldo (heap_padrao 1) = fl 5000 \<and>
    fst (transferir heap_padrao 0 1 (fl 400)) = None \<and>
    saldo (snd (transferir heap_padrao 0 1 (fl 400)) 0) = fl 600 \<and>
    saldo (snd (transferir heap_padrao 0 1 (fl 400)) 1) = fl 5400 \<and>
    length (transacoes (snd (transferir heap_padrao 0 1 (fl 400)) 0)) =
      length (transacoes (heap_padrao 0)) + 1 \<and>
    length (transacoes (snd (transferir heap_padrao 0 1 (fl 400)) 1)) =
      length (transacoes (heap_padrao 1)) + 1 \<and>
    transferir heap_padrao 0 1 (fl 10000) =
      (Some (LimiteExcedidoError (fl 1500) (fl 10000)), heap_padrao)"
  using transferir_Inl[of h origem v e destino]
    transferir_Inr[of h origem v c destino, OF _ assms]
    transferir_padrao_400 transferir_padrao_10000
  by (simp add: heap_padrao_campos)

theorem C3_transferir_witness:
  "(0::nat) \<noteq> 1 \<and> numero_valido (numero (heap_padrao 0)) \<and> numero_valido (numero (heap_padrao 1)) \<and>
   sacar (heap_padrao 0) (Fin 10000) = Inl (LimiteExcedidoError (Fin 1500) (Fin 10000)) \<and>
   transferir heap_padrao 0 1 (Fin 10000) =
     (Some (LimiteExcedidoError (Fin 1500) (Fin 10000)), heap_padrao) \<and>
   sacar (heap_padrao 0) (Fin 300) = Inr ((heap_padrao 0)\<lparr>saldo := Fin 700\<rparr>) \<and>
   transferir heap_padrao 0 1 (Fin 300) =
     (None, heap_padrao(0 := (heap_padrao 0)\<lparr>saldo := Fin 700,
               transacoes := [\<lparr>tipo = ''Transf. para 98765-4'', valor = Fin 300, conta = 0\<rparr>]\<rparr>,
             1 := (heap_padrao 1)\<lparr>saldo := Fin 5300,
               transacoes := [\<lparr>tipo = ''Transf. de 12345-6'', valor = Fin 300, conta = 1\<rparr>]\<rparr>))"
proof -
  have d: "(0::nat) \<noteq> 1" by simp
  have n: "numero_valido (numero (heap_padrao 0))" "numero_valido (numero (heap_padrao 1))"
    using numero_valido_padrao by simp_all
  have s1: "sacar (heap_padrao 0) (Fin 10000) = Inl (LimiteExcedidoError (Fin 1500) (Fin 10000))"
    by (simp add: sacar_Corrente[of "heap_padrao 0" "Fin 500" "Fin 10"] heap_padrao_campos)
  have s2: "sacar (heap_padrao 0) (Fin 300) = Inr ((heap_padrao 0)\<lparr>saldo := Fin 700\<rparr>)"
    by (simp add: sacar_Corrente[of "heap_padrao 0" "Fin 500" "Fin 10"] heap_padrao_campos)
  show ?thesis
    using d n s1 s2
      C3_transferir[of 0 1 heap_padrao "Fin 10000" "LimiteExcedidoError (Fin 1500) (Fin 10000)"
        "heap_padrao 0", OF d n]
      C3_transferir[of 0 1 heap_padrao "Fin 300" "ValorInvalidoError (Fin 300)"
        "(heap_padrao 0)\<lparr>saldo := Fin 700\<rparr>", OF d n]
    by (simp add: heap_padrao_campos)
qed











lemma last_dropWhile_nonempty:
  "dropWhile P xs \<noteq> [] \<Longrightarrow> last (dropWhile P xs) = last xs"
  by (induction xs) (auto split: if_splits)

lemma py_strip_valido:
  assumes "py_strip n \<noteq> []"
  shows "numero_valido (py_strip n)"
proof -
  define m where "m = dropWhile py_isspace n"
  define k where "k = dropWhile py_isspace (rev m)"
  have s: "py_strip n = rev k" by (simp add: py_strip_def m_def k_def)
  have k: "k \<noteq> []" using assms s by simp
  then have m: "m \<noteq> []" by (auto simp: k_def)
  have "\<not> py_isspace (hd k)" using k unfolding k_def by (rule hd_dropWhile)
  then have l: "\<not> py_isspace (last (rev k))" using k by (simp add: last_rev)
  have "last k = last (rev m)" using k unfolding k_def by (rule last_dropWhile_nonempty)
  also have "\<dots> = hd m" using m by (simp add: last_rev)
  finally have "hd (rev k) = hd m" using k by (simp add: hd_rev)
  moreover have "\<not> py_isspace (hd m)" using m unfolding m_def by (rule hd_dropWhile)
  ultimately have h: "\<not> py_isspace (hd (rev k))" by simp
  have "py_strip (rev k) = rev k" using k h l by (intro py_strip_id) simp_all
  then show ?thesis using assms by (simp add: numero_valido_def s)
qed

lemma ContaCorrente_Inr:
  assumes "ContaCorrente n cl s sh L tx = Inr c"
  shows "\<not> dlt (saldo c) (Fin 0)" "\<not> dlt L (Fin 0)" "variante c = Corrente L tx"
    "transacoes c = []" "numero_valido (numero c)"
proof -
  have ok: "py_strip n \<noteq> []" "\<not> dlt s (Fin 0)" "\<not> dlt L (Fin 0)"
    and c: "c = \<lparr>numero = py_strip n, cliente = cl, saldo = s, senha_hash = sh,
                transacoes = [], variante = Corrente L tx\<rparr>"
    using assms by (auto simp: ContaCorrente_def Let_def split: if_splits)
  show "\<not> dlt (saldo c) (Fin 0)" "\<not> dlt L (Fin 0)" "variante c = Corrente L tx"
    "transacoes c = []"
    using ok by (simp_all add: c)
  show "numero_valido (numero c)" using py_strip_valido[OF ok(1)] by (simp add: c)
qed

lemma ContaPoupanca_Inr:
  assumes "ContaPoupanca n cl s sh tr dia = Inr c"
  shows "\<not> dlt (saldo c) (Fin 0)" "\<not> dle tr (Fin 0)" "variante c = Poupanca tr dia"
    "transacoes c = []" "numero_valido (numero c)"
proof -
  have ok: "py_strip n \<noteq> []" "\<not> dlt s (Fin 0)" "\<not> dle tr (Fin 0)"
    and c: "c = \<lparr>numero = py_strip n, cliente = cl, saldo = s, senha_hash = sh,
                transacoes = [], variante = Poupanca tr dia\<rparr>"
    using assms by (auto simp: ContaPoupanca_def Let_def split: if_splits)
  show "\<not> dlt (saldo c) (Fin 0)" "\<not> dle tr (Fin 0)" "variante c = Poupanca tr dia"
    "transacoes c = []"
    using ok by (simp_all add: c)
  show "numero_valido (numero c)" using py_strip_valido[OF ok(1)] by (simp add: c)
qed

lemma conftest_construidos:
  "ContaCorrente ''12345-6'' 0 (fl 1000.0) ''senha123'' (fl 500.0) taxa_manutencao_padrao =
     Inr conta_corrente_padrao"
  "ContaPoupanca ''98765-4'' 0 (fl 5000.0) ''senha456'' (fl 0.5) 15 = Inr conta_poupanca_padrao"
  by (simp_all add: ContaCorrente_def ContaPoupanca_def conta_corrente_padrao_def
      conta_poupanca_padrao_def taxa_manutencao_padrao_def py_strip_def py_isspace_def fl_meio)

lemma transferir_mesma_conta:
  assumes s: "sacar (h a) v = Inr c" and n: "numero_valido (numero (h a))"
  shows "transferir h a a v =
    (None, h(a := (h a)\<lparr>saldo := dadd (dsub (saldo (h a)) v) v,
        transacoes := transacoes (h a) @
        [\<lparr>tipo = ''Transf. para '' @ numero (h a), valor = v, conta = a\<rparr>,
         \<lparr>tipo = ''Transf. de '' @ numero (h a), valor = v, conta = a\<rparr>]\<rparr>))"
proof -
  note c = sacar_Inr[OF s]
  have t1: "Transacao (''Transf. para '' @ numero (h a)) v a =
      Inr \<lparr>tipo = ''Transf. para '' @ numero (h a), valor = v, conta = a\<rparr>"
    using c(2) py_strip_Transf_para[OF n] by (simp add: Transacao_def)
  have t2: "Transacao (''Transf. de '' @ numero (h a)) v a =
      Inr \<lparr>tipo = ''Transf. de '' @ numero (h a), valor = v, conta = a\<rparr>"
    using c(2) py_strip_Transf_de[OF n] by (simp add: Transacao_def)
  show ?thesis
    using t1 t2 by (simp add: transferir_def s c(1) append_transacao_def Let_def)
qed

lemma b2_validar_saque:
  "b2_validar_saque_corrente s L v =
     (if dle v (Fin 0) then Some b2_ValorInvalidoError
      else if dlt (dadd s L) v then Some b2_LimiteExcedidoError else None)"
  "b2_validar_saque_poupanca s v =
     (if dle v (Fin 0) then Some b2_ValorInvalidoError
      else if dlt s v then Some b2_SaldoInsuficienteError else None)"
  by (simp_all add: b2_validar_saque_corrente_def b2_validar_saque_poupanca_def
      b2_validar_valor_positivo_def)

lemma b2_depositar_invalido:
  "dle v (Fin 0) \<Longrightarrow> b2_depositar r c v = (None, [Notificacao_erro_valor_invalido], c)"
  by (simp add: b2_depositar_def)

lemma b2_sacar_invalido:
  "dle v (Fin 0) \<Longrightarrow> b2_sacar r c v = (None, [Notificacao_erro_valor_invalido], c)"
  by (simp add: b2_sacar_def b2_Conta_Corrente_sacar_def b2_Conta_Poupanca_sacar_def
      split: variante.splits)

lemma b2_sacar_excede:
  "dlt (Fin 0) v \<Longrightarrow> b2_variante c = Corrente L tx \<Longrightarrow> dlt (dadd (b2_saldo c) L) v \<Longrightarrow>
     b2_sacar r c v = (None, [Notificacao_erro_limite_excedido], c)"
  "dlt (Fin 0) v \<Longrightarrow> b2_variante c = Poupanca tr dia \<Longrightarrow> dlt (b2_saldo c) v \<Longrightarrow>
     b2_sacar r c v = (None, [Notificacao_erro_saldo_insuficiente], c)"
  by (simp_all add: b2_sacar_def b2_Conta_Corrente_sacar_def b2_Conta_Poupanca_sacar_def dlt_dle)

lemma b2_campos:
  "b2_variante b2_conta_corrente = Corrente (Fin 1000) (Fin 10)"
  "b2_saldo b2_conta_corrente = Fin 1000"
  "b2_variante b2_conta_poupanca = Poupanca (Fin (1 / 2)) 3"
  "b2_saldo b2_conta_poupanca = Fin 15000"
  by (simp_all add: b2_conta_corrente_def b2_conta_poupanca_def fl_meio)

text \<open>
  C6, as the specification states it, fails for the monolith: a deposit of -100 and a
  withdrawal of 5000 from its checking account (balance 1000, limit 1000) both return
  normally, without an exception; the violation is printed and nothing else happens.
\<close>

theorem C6_monolito_counterexample:
  "b2_depositar 0 b2_conta_corrente (Fin (- 100)) =
     (None, [Notificacao_erro_valor_invalido], b2_conta_corrente) \<and>
   fst (b2_sacar 0 b2_conta_corrente (Fin 5000)) = None"
  by (simp add: b2_depositar_def b2_sacar_def b2_Conta_Corrente_sacar_def b2_campos)

text \<open>
  C6, amended. In the layered version every violation is raised as a typed error and the
  store is unchanged: a deposit or withdrawal of an amount \<open>v \<le> 0\<close> raises
  \<open>ValorInvalidoError\<close>, a withdrawal of a positive amount above the double sum of balance
  and limit raises \<open>LimiteExcedidoError\<close> on a checking account, and a withdrawal of a
  positive amount above the balance raises \<open>SaldoInsuficienteError\<close> on a savings account.
  In the monolith the same violations raise nothing: \<open>depositar\<close> and \<open>sacar\<close> print the
  matching error notification, return normally and leave the account unchanged; only the
  validation helper of its class \<open>Exceptions\<close>, which the account methods do not call,
  raises.
\<close>

theorem C6_propagacao:
  "(dle v (Fin 0) \<longrightarrow> realizar_deposito h a v = (Some (ValorInvalidoError v), h)) \<and>
   (dle v (Fin 0) \<longrightarrow> realizar_saque h a v = (Some (ValorInvalidoError v), h)) \<and>
   (dlt (Fin 0) v \<and> variante (h a) = Corrente L tx \<and> dlt (dadd (saldo (h a)) L) v \<longrightarrow>
      realizar_saque h a v = (Some (LimiteExcedidoError (dadd (saldo (h a)) L) v), h)) \<and>
   (dlt (Fin 0) v \<and> variante (h a) = Poupanca tr dia \<and> dlt (saldo (h a)) v \<longrightarrow>
      realizar_saque h a v = (Some (SaldoInsuficienteError (saldo (h a)) v), h)) \<and>
   (dle v (Fin 0) \<longrightarrow> b2_depositar r c v = (None, [Notificacao_erro_valor_invalido], c)) \<and>
   (dle v (Fin 0) \<longrightarrow> b2_sacar r c v = (None, [Notificacao_erro_valor_invalido], c)) \<and>
   (dlt (Fin 0) v \<and> b2_variante c = Corrente L tx \<and> dlt (dadd (b2_saldo c) L) v \<longrightarrow>
      b2_sacar r c v = (None, [Notificacao_erro_limite_excedido], c)) \<and>
   (dlt (Fin 0) v \<and> b2_variante c = Poupanca tr dia \<and> dlt (b2_saldo c) v \<longrightarrow>
      b2_sacar r c v = (None, [Notificacao_erro_saldo_insuficiente], c)) \<and>
   (dle v (Fin 0) \<longrightarrow> b2_validar_valor_positivo v = Some b2_ValorInvalidoError)"
proof -
  have 1: "dle v (Fin 0) \<Longrightarrow> realizar_saque h a v = (Some (ValorInvalidoError v), h)"
    by (cases "variante (h a)")
      (simp_all add: realizar_saque_Corrente[of h a] realizar_saque_Poupanca[of h a])
  show ?thesis
    using 1 b2_depositar_invalido[of v r c] b2_sacar_invalido[of v r c]
      b2_sacar_excede[of v c] dlt_dle[of "Fin 0" v]
    by (auto simp: realizar_deposito_eq realizar_saque_Corrente[of h a]
        realizar_saque_Poupanca[of h a] b2_validar_valor_positivo_def)
qed

theorem C6_propagacao_witness:
  "realizar_deposito heap_padrao 0 (Fin (- 100)) =
     (Some (ValorInvalidoError (Fin (- 100))), heap_padrao) \<and>
   realizar_saque heap_padrao 0 (Fin (- 100)) =
     (Some (ValorInvalidoError (Fin (- 100))), heap_padrao) \<and>
   variante (heap_padrao 0) = Corrente (Fin 500) (Fin 10) \<and>
   realizar_saque heap_padrao 0 (Fin 2000) =
     (Some (LimiteExcedidoError (Fin 1500) (Fin 2000)), heap_padrao) \<and>
   variante (heap_padrao 1) = Poupanca (Fin (1 / 2)) 15 \<and>
   realizar_saque heap_padrao 1 (Fin 10000) =
     (Some (SaldoInsuficienteError (Fin 5000) (Fin 10000)), heap_padrao) \<and>
   b2_depositar 0 b2_conta_corrente (Fin (- 100)) =
     (None, [Notificacao_erro_valor_invalido], b2_conta_corrente) \<and>
   b2_sacar 0 b2_conta_corrente (Fin (- 100)) =
     (None, [Notificacao_erro_valor_invalido], b2_conta_corrente) \<and>
   b2_variante b2_conta_corrente = Corrente (Fin 1000) (Fin 10) \<and>
   b2_sacar 0 b2_conta_corrente (Fin 5000) =
     (None, [Notificacao_erro_limite_excedido], b2_conta_corrente) \<and>
   b2_variante b2_conta_poupanca = Poupanca (Fin (1 / 2)) 3 \<and>
   b2_sacar 1 b2_conta_poupanca (Fin 20000) =
     (None, [Notificacao_erro_saldo_insuficiente], b2_conta_poupanca) \<and>
   b2_validar_valor_positivo (Fin (- 100)) = Some b2_ValorInvalidoError"
  using C6_propagacao[of "Fin (- 100)" heap_padrao 0 "Fin 500" "Fin 10" "Fin (1 / 2)" 15 0
      b2_conta_corrente]
    C6_propagacao[of "Fin 2000" heap_padrao 0 "Fin 500" "Fin 10" "Fin (1 / 2)" 15 0
      b2_conta_corrente]
    C6_propagacao[of "Fin 10000" heap_padrao 1 "Fin 500" "Fin 10" "Fin (1 / 2)" 15 0
      b2_conta_corrente]
    C6_propagacao[of "Fin 5000" heap_padrao 0 "Fin 1000" "Fin 10" "Fin (1 / 2)" 3 0
      b2_conta_corrente]
    C6_propagacao[of "Fin 20000" heap_padrao 0 "Fin 1000" "Fin 10" "Fin (1 / 2)" 3 1
      b2_conta_poupanca]
  by (simp add: heap_padrao_campos b2_campos)

lemma calcular_imposto_heap: "snd (calcular_imposto s a) = s"
  by (simp add: calcular_imposto_def)

lemma calcular_rendimento_heap: "snd (calcular_rendimento s a) = s"
  by (simp add: calcular_rendimento_def)

lemma calcular_imposto_repetido: "((\<lambda>s. snd (calcular_imposto s a)) ^^ k) h = h"
  by (induction k) (simp_all add: calcular_imposto_heap)

lemma calcular_rendimento_repetido: "((\<lambda>s. snd (calcular_rendimento s a)) ^^ k) h = h"
  by (induction k) (simp_all add: calcular_rendimento_heap)

text \<open>
  C8, as the specification states it, fails: on a checking account with balance 100 the
  tax returned is the double \<open>7.000000000000001\<close>, not 100 times 0.07.
\<close>

theorem C8_imposto_counterexample:
  "variante ((heap_padrao 0)\<lparr>saldo := fl 100.0\<rparr>) = Corrente (Fin 500) (Fin 10) \<and>
   saldo ((heap_padrao 0)\<lparr>saldo := fl 100.0\<rparr>) = Fin 100 \<and>
   get_valor_imposto ((heap_padrao 0)\<lparr>saldo := fl 100.0\<rparr>) =
     Inr (Fin (7881299347898369 / 1125899906842624)) \<and>
   (7881299347898369 / 1125899906842624 \<noteq> (100 * 0.07 :: rat))"
  by (simp add: get_valor_imposto_def heap_padrao_campos fl_7_centesimos fl_imposto_100)

text \<open>
  C8, amended. On a checking account \<open>get_valor_imposto\<close> returns the double product of
  the balance and the double nearest to 0.07, which for a finite balance \<open>b\<close> is the
  exact product of \<open>b\<close> and \<open>1261007895663739 / 2^54\<close> rounded to the nearest double; on a
  savings account \<open>get_rendimento\<close> returns the double product of the balance and the
  double quotient of the rate by 100. The services \<open>calcular_imposto\<close> and
  \<open>calcular_rendimento\<close> return that value and the store they were given; after any
  number \<open>k\<close> of calls, one more call returns the same value and the same store, so
  balance and log are unchanged.
\<close>

theorem C8_imposto_rendimento:
  "(variante (h a) = Corrente L tx \<longrightarrow>
      get_valor_imposto (h a) = Inr (dmul (saldo (h a)) (fl 0.07)) \<and>
      calcular_imposto h a = (Inr (dmul (saldo (h a)) (fl 0.07)), h) \<and>
      calcular_imposto (((\<lambda>s. snd (calcular_imposto s a)) ^^ k) h) a =
        (Inr (dmul (saldo (h a)) (fl 0.07)), h)) \<and>
   (variante (h a) = Corrente L tx \<and> saldo (h a) = Fin b \<longrightarrow>
      get_valor_imposto (h a) = Inr (fl (b * (1261007895663739 / 18014398509481984)))) \<and>
   fl 0.07 = Fin (1261007895663739 / 18014398509481984) \<and>
   (variante (h a) = Poupanca tr dia \<longrightarrow>
      get_rendimento (h a) = Inr (dmul (saldo (h a)) (ddiv_100 tr)) \<and>
      calcular_rendimento h a = (Inr (dmul (saldo (h a)) (ddiv_100 tr)), h) \<and>
      calcular_rendimento (((\<lambda>s. snd (calcular_rendimento s a)) ^^ k) h) a =
        (Inr (dmul (saldo (h a)) (ddiv_100 tr)), h))"
  unfolding calcular_imposto_repetido calcular_rendimento_repetido
  by (simp add: calcular_imposto_def calcular_rendimento_def get_valor_imposto_def
      get_rendimento_def hasattr_get_valor_imposto_def hasattr_get_rendimento_def
      fl_7_centesimos)

theorem C8_imposto_rendimento_witness:
  "variante (heap_padrao 0) = Corrente (Fin 500) (Fin 10) \<and> saldo (heap_padrao 0) = Fin 1000 \<and>
   get_valor_imposto (heap_padrao 0) = Inr (Fin 70) \<and>
   calcular_imposto heap_padrao 0 = (Inr (Fin 70), heap_padrao) \<and>
   calcular_imposto (((\<lambda>s. snd (calcular_imposto s 0)) ^^ 3) heap_padrao) 0 =
     (Inr (Fin 70), heap_padrao) \<and>
   variante (heap_padrao 1) = Poupanca (Fin (1 / 2)) 15 \<and>
   get_rendimento (heap_padrao 1) = Inr (Fin 25) \<and>
   calcular_rendimento heap_padrao 1 = (Inr (Fin 25), heap_padrao) \<and>
   calcular_rendimento (((\<lambda>s. snd (calcular_rendimento s 1)) ^^ 3) heap_padrao) 1 =
     (Inr (Fin 25), heap_padrao)"
  using C8_imposto_rendimento[of heap_padrao 0 "Fin 500" "Fin 10" 3 1000 "Fin (1 / 2)" 15]
    C8_imposto_rendimento[of heap_padrao 1 "Fin 500" "Fin 10" 3 1000 "Fin (1 / 2)" 15]
  by (simp add: heap_padrao_campos fl_imposto_1000 fl_meio_por_cento fl_rendimento_5000)

text \<open>
  C9. Constructing a \<open>Cliente\<close> with a valid CPF and a birth date that makes the age 17
  (or any age below 18) raises \<open>IdadeInvalidaError\<close> with that age. Constructing one with
  a CPF that \<open>validar_cpf\<close> rejects raises \<open>CPFInvalidoError\<close> with that CPF, whatever the
  birth date, the name and the licence number are: the CPF check runs before the age
  check.
\<close>

theorem C9_cliente_cpf_antes_da_idade:
  "(validar_cpf c \<and> idade hoje dn = 17 \<longrightarrow> Cliente hoje n c dn h = Inl (IdadeInvalidaError 17)) \<and>
   (validar_cpf c \<and> idade hoje dn < 18 \<longrightarrow>
      Cliente hoje n c dn h = Inl (IdadeInvalidaError (idade hoje dn))) \<and>
   (\<not> validar_cpf c \<longrightarrow> Cliente hoje n c dn h = Inl (CPFInvalidoError c))"
  by (simp add: Cliente_def Let_def)

theorem C9_cliente_cpf_antes_da_idade_witness:
  "validar_cpf ''123.456.789-09'' \<and>
   idade \<lparr>year = 2026, month = 11, day = 3\<rparr> \<lparr>year = 2009, month = 11, day = 3\<rparr> = 17 \<and>
   Cliente \<lparr>year = 2026, month = 11, day = 3\<rparr> ''Joao'' ''123.456.789-09''
     \<lparr>year = 2009, month = 11, day = 3\<rparr> ''123456789'' = Inl (IdadeInvalidaError 17) \<and>
   \<not> validar_cpf ''111.111.111-11'' \<and>
   Cliente \<lparr>year = 2026, month = 11, day = 3\<rparr> ''Joao'' ''111.111.111-11''
     \<lparr>year = 2009, month = 11, day = 3\<rparr> ''123456789'' = Inl (CPFInvalidoError ''111.111.111-11'') \<and>
   Cliente \<lparr>year = 2026, month = 11, day = 3\<rparr> ''Joao'' ''111.111.111-11''
     \<lparr>year = 1990, month = 1, day = 1\<rparr> ''123456789'' = Inl (CPFInvalidoError ''111.111.111-11'')"
proof -
  have i: "idade \<lparr>year = 2026, month = 11, day = 3\<rparr> \<lparr>year = 2009, month = 11, day = 3\<rparr> = 17"
    by (simp add: idade_def)
  show ?thesis
    using i validar_cpf_exemplos(1,2)
      C9_cliente_cpf_antes_da_idade[of "''123.456.789-09''" "\<lparr>year = 2026, month = 11, day = 3\<rparr>"
        "\<lparr>year = 2009, month = 11, day = 3\<rparr>" "''Joao''" "''123456789''"]
      C9_cliente_cpf_antes_da_idade[of "''111.111.111-11''" "\<lparr>year = 2026, month = 11, day = 3\<rparr>"
        "\<lparr>year = 2009, month = 11, day = 3\<rparr>" "''Joao''" "''123456789''"]
      C9_cliente_cpf_antes_da_idade[of "''111.111.111-11''" "\<lparr>year = 2026, month = 11, day = 3\<rparr>"
        "\<lparr>year = 1990, month = 1, day = 1\<rparr>" "''Joao''" "''123456789''"]
    by simp
qed

lemma aplicar_rendimento_Poupanca:
  assumes "variante (h a) = Poupanca tr dia"
  shows "aplicar_rendimento h a =
    (if dle (dmul (saldo (h a)) (ddiv_100 tr)) (Fin 0) then
       (Some (ValidationError [''valor'']),
        h(a := (h a)\<lparr>saldo := dadd (saldo (h a)) (dmul (saldo (h a)) (ddiv_100 tr))\<rparr>))
     else
       (None, h(a := (h a)\<lparr>saldo := dadd (saldo (h a)) (dmul (saldo (h a)) (ddiv_100 tr)),
          transacoes := transacoes (h a) @
            [\<lparr>tipo = ''Rendimento'', valor = dmul (saldo (h a)) (ddiv_100 tr), conta = a\<rparr>]\<rparr>)))"
  using assms
  by (simp add: aplicar_rendimento_def hasattr_get_rendimento_def get_rendimento_def
      Transacao_def py_strip_Rendimento append_transacao_def Let_def)

lemma rendimento_saldo_zero:
  assumes "0 < t" and "t < 2 ^ 1024"
  shows "dmul (Fin 0) (ddiv_100 (Fin t)) = Fin 0"
proof -
  have "(2::rat) ^ 1024 = 2 * 2 ^ 1023" by simp
  then have "\<bar>t / 100\<bar> < 2 ^ 1023" using assms by simp
  from fl_finito[OF this] obtain q where "fl (t / 100) = Fin q" ..
  then show ?thesis by (simp add: fl_zero)
qed

lemma heap_minimo_campos:
  "saldo (heap_minimo a) = Fin (1 / 202402253307310618352495346718917307049556649764142118356901358027430339567995346891960383701437124495187077864316811911389808737385793476867013399940738509921517424276566361364466907742093216341239767678472745068562007483424692698618103355649159556340810056512358769552333414615230502532186327508646006263307707741093494784)"
  "variante (heap_minimo (Suc 0)) = Poupanca (Fin (1 / 2)) 15"
  "transacoes (heap_minimo a) = []"
  by (simp_all add: heap_minimo_def heap_padrao_def conta_corrente_padrao_def
      conta_poupanca_padrao_def fl_5e_324 fl_meio)

text \<open>
  C10, as the specification states it, fails: on a savings account with rate 0.5 and the
  positive balance \<open>5e-324\<close> the interest underflows to 0, the transaction is refused and
  \<open>aplicar_rendimento\<close> raises \<open>ValidationError\<close> instead of adding a positive amount.
\<close>

theorem C10_rendimento_counterexample:
  "variante (heap_minimo 1) = Poupanca (Fin (1 / 2)) 15 \<and>
   dlt (Fin 0) (saldo (heap_minimo 1)) \<and>
   get_rendimento (heap_minimo 1) = Inr (Fin 0) \<and>
   aplicar_rendimento heap_minimo 1 = (Some (ValidationError [''valor'']), heap_minimo)"
proof -
  have v: "variante (heap_minimo (Suc 0)) = Poupanca (Fin (1 / 2)) 15"
    by (simp add: heap_minimo_campos)
  have r: "dmul (saldo (heap_minimo (Suc 0))) (ddiv_100 (Fin (1 / 2))) = Fin 0"
    by (simp add: heap_minimo_campos fl_meio_por_cento fl_rendimento_5e_324)
  have s: "dadd (saldo (heap_minimo (Suc 0))) (Fin 0) = saldo (heap_minimo (Suc 0))"
    by (simp add: heap_minimo_campos fl_minimo)
  have u: "heap_minimo(Suc 0 := (heap_minimo (Suc 0))\<lparr>saldo := saldo (heap_minimo (Suc 0))\<rparr>) =
      heap_minimo" by simp
  show ?thesis
    using v r by (simp add: aplicar_rendimento_Poupanca[of heap_minimo "Suc 0", OF v]
        get_rendimento_def s u) (simp add: heap_minimo_campos)
qed

text \<open>
  C10, amended. On a savings account let \<open>r\<close> be the interest \<open>get_rendimento\<close> computes,
  the double product of the balance and the double quotient of the rate by 100. If
  \<open>r\<close> is positive, \<open>aplicar_rendimento\<close> returns normally, the balance becomes the
  double sum of balance and \<open>r\<close> and one transaction \<open>Rendimento\<close> of amount \<open>r\<close> is
  appended. If \<open>r \<le> 0\<close>, the transaction is refused and \<open>aplicar_rendimento\<close> raises
  \<open>ValidationError\<close> for the field \<open>valor\<close> with no transaction appended, \<open>r\<close> having
  been added to the balance. With balance 0 and a finite positive rate, \<open>r\<close> is 0 and
  the error leaves the store as it was: balance 0 and no new transaction.
\<close>

theorem C10_aplicar_rendimento:
  assumes "variante (h a) = Poupanca tr dia"
    and "r = dmul (saldo (h a)) (ddiv_100 tr)"
  shows "get_rendimento (h a) = Inr r \<and>
    (dlt (Fin 0) r \<longrightarrow>
      aplicar_rendimento h a =
        (None, h(a := (h a)\<lparr>saldo := dadd (saldo (h a)) r,
           transacoes := transacoes (h a) @ [\<lparr>tipo = ''Rendimento'', valor = r, conta = a\<rparr>]\<rparr>))) \<and>
    (dle r (Fin 0) \<longrightarrow>
      aplicar_rendimento h a =
        (Some (ValidationError [''valor'']), h(a := (h a)\<lparr>saldo := dadd (saldo (h a)) r\<rparr>))) \<and>
    (saldo (h a) = Fin 0 \<and> tr = Fin t \<and> 0 < t \<and> t < 2 ^ 1024 \<longrightarrow>
      r = Fin 0 \<and> aplicar_rendimento h a = (Some (ValidationError [''valor'']), h))"
proof -
  have g: "get_rendimento (h a) = Inr r"
    using assms by (simp add: get_rendimento_def)
  have z: "r = Fin 0 \<and> h(a := (h a)\<lparr>saldo := dadd (saldo (h a)) r\<rparr>) = h"
    if "saldo (h a) = Fin 0" "tr = Fin t" "0 < t" "t < 2 ^ 1024"
  proof -
    have r0: "r = Fin 0" using that assms(2) rendimento_saldo_zero[of t] by simp
    have e: "(h a)\<lparr>saldo := Fin 0\<rparr> = h a"
      using that(1) by (metis conta_obj.surjective conta_obj.update_convs(3))
    show ?thesis using that(1) r0 by (simp add: fl_zero e)
  qed
  show ?thesis
    unfolding assms(2) aplicar_rendimento_Poupanca[of h a tr dia, OF assms(1)]
    using g z dlt_dle[of "Fin 0" r] unfolding assms(2) by auto
qed

theorem C10_aplicar_rendimento_witness:
  "variante (heap_padrao 1) = Poupanca (Fin (1 / 2)) 15 \<and>
   dmul (saldo (heap_padrao 1)) (ddiv_100 (Fin (1 / 2))) = Fin 25 \<and>
   get_rendimento (heap_padrao 1) = Inr (Fin 25) \<and>
   fst (aplicar_rendimento heap_padrao 1) = None \<and>
   saldo (snd (aplicar_rendimento heap_padrao 1) 1) = Fin 5025 \<and>
   transacoes (snd (aplicar_rendimento heap_padrao 1) 1) =
     [\<lparr>tipo = ''Rendimento'', valor = Fin 25, conta = 1\<rparr>] \<and>
   variante ((heap_padrao(1 := (heap_padrao 1)\<lparr>saldo := Fin 0\<rparr>)) 1) = Poupanca (Fin (1 / 2)) 15 \<and>
   saldo ((heap_padrao(1 := (heap_padrao 1)\<lparr>saldo := Fin 0\<rparr>)) 1) = Fin 0 \<and>
   (0::rat) < 1 / 2 \<and> (1 / 2 :: rat) < 2 ^ 1024 \<and>
   aplicar_rendimento (heap_padrao(1 := (heap_padrao 1)\<lparr>saldo := Fin 0\<rparr>)) 1 =
     (Some (ValidationError [''valor'']), heap_padrao(1 := (heap_padrao 1)\<lparr>saldo := Fin 0\<rparr>))"
proof -
  have v: "variante (heap_padrao 1) = Poupanca (Fin (1 / 2)) 15" by (simp add: heap_padrao_campos)
  have r: "dmul (saldo (heap_padrao 1)) (ddiv_100 (Fin (1 / 2))) = Fin 25"
    by (simp add: heap_padrao_campos fl_meio_por_cento fl_rendimento_5000)
  define h0 where "h0 = heap_padrao(1 := (heap_padrao 1)\<lparr>saldo := Fin 0\<rparr>)"
  have v0: "variante (h0 1) = Poupanca (Fin (1 / 2)) 15" and s0: "saldo (h0 1) = Fin 0"
    by (simp_all add: h0_def heap_padrao_campos)
  have t: "(0::rat) < 1 / 2" "(1 / 2 :: rat) < 2 ^ 1024"
  proof -
    show "(0::rat) < 1 / 2" by simp
    have "(1::rat) \<le> 2 ^ 1024" by (rule one_le_power) simp
    then show "(1 / 2 :: rat) < 2 ^ 1024" by linarith
  qed
  show ?thesis
    using v0 s0 t r
      C10_aplicar_rendimento[of heap_padrao 1 "Fin (1 / 2)" 15 "Fin 25" "1 / 2", OF v r[symmetric]]
      C10_aplicar_rendimento[of h0 1 "Fin (1 / 2)" 15
        "dmul (saldo (h0 1)) (ddiv_100 (Fin (1 / 2)))" "1 / 2", OF v0 refl]
    unfolding h0_def
    by (simp add: heap_padrao_campos)
qed

end
